theory Spec2Isabelle
  imports Complex_Main
begin

section \<open>Clinical zone classification of a head mesh\<close>

text \<open>
  This theory embeds the zone-classification core of \<^verbatim>\<open>scripts/convert_flame_to_web.py\<close>:
  \<^verbatim>\<open>_compute_vertex_stats\<close>, \<^verbatim>\<open>subdivide_flame_masks_to_clinical_zones\<close> (the mask-guided
  subdivider) and \<^verbatim>\<open>_position_only_regions\<close> (the position-only classifier).

  Conventions of the embedding:
  \<^item> a coordinate is a \<open>real\<close>: floating-point rounding is not modelled, arithmetic is exact;
  \<^item> the one place where the source divides by a computed quantity is modelled with
    \<open>real option\<close>, \<open>None\<close> standing for numpy's \<^verbatim>\<open>nan\<close> (every comparison with it is false);
  \<^item> a vertex index is an \<open>int\<close> (numpy \<^verbatim>\<open>int64\<close>), a zone map is a partial map from zone
    names to index lists, the input mask dictionary is an association list in insertion order;
  \<^item> a Python exception is a value \<open>Inl e\<close> of the result type \<open>error + 'a\<close>.
\<close>

subsection \<open>Data model\<close>

datatype error = ValueError | IndexError

type_synonym vertex = "real \<times> real \<times> real"

type_synonym regions = "string \<rightharpoonup> int list"

text \<open>The value stored under a mask key: \<^verbatim>\<open>None\<close>, a one-dimensional boolean array, or a
  one-dimensional integer array.\<close>

datatype mask_val = NoneVal | BoolArr "bool list" | IntArr "int list"

definition ALL_CLINICAL_ZONES :: "string list" where
  "ALL_CLINICAL_ZONES =
    [''full_face'',
     ''forehead'', ''forehead_left'', ''forehead_right'', ''forehead_center'',
     ''brow_left'', ''brow_right'', ''brow_inner_left'', ''brow_inner_right'',
     ''eye_left_upper'', ''eye_left_lower'', ''eye_right_upper'', ''eye_right_lower'',
     ''eye_left_corner_inner'', ''eye_left_corner_outer'',
     ''eye_right_corner_inner'', ''eye_right_corner_outer'',
     ''under_eye_left'', ''under_eye_right'',
     ''tear_trough_left'', ''tear_trough_right'',
     ''nose_bridge'', ''nose_bridge_upper'', ''nose_bridge_lower'',
     ''nose_tip'', ''nose_tip_left'', ''nose_tip_right'',
     ''nostril_left'', ''nostril_right'', ''nose_dorsum'',
     ''cheek_left'', ''cheek_right'', ''cheekbone_left'', ''cheekbone_right'',
     ''cheek_hollow_left'', ''cheek_hollow_right'',
     ''nasolabial_left'', ''nasolabial_right'',
     ''lip_upper'', ''lip_upper_left'', ''lip_upper_right'', ''lip_upper_center'',
     ''lip_lower'', ''lip_lower_left'', ''lip_lower_right'', ''lip_lower_center'',
     ''lip_corner_left'', ''lip_corner_right'',
     ''chin'', ''chin_center'', ''chin_left'', ''chin_right'',
     ''jaw_left'', ''jaw_right'', ''jawline_left'', ''jawline_right'',
     ''temple_left'', ''temple_right'',
     ''ear_left'', ''ear_right'',
     ''neck'']"

text \<open>\<^verbatim>\<open>regions = {name: [] for name in ALL_CLINICAL_ZONES}\<close>\<close>

definition init_regions :: regions where
  "init_regions = map_of (map (\<lambda>name. (name, [])) ALL_CLINICAL_ZONES)"

text \<open>\<^verbatim>\<open>regions[name].append(vi)\<close>\<close>

definition append_zone :: "string \<Rightarrow> int \<Rightarrow> regions \<Rightarrow> regions" where
  "append_zone name vi regions = regions(name \<mapsto> the (regions name) @ [vi])"

subsection \<open>numpy operations\<close>

text \<open>\<^verbatim>\<open>a.min()\<close> and \<^verbatim>\<open>a.max()\<close> of a non-empty array (the callers rule the empty one out).\<close>

definition arr_min :: "'a::linorder list \<Rightarrow> 'a" where
  "arr_min a = fold min (tl a) (hd a)"

definition arr_max :: "'a::linorder list \<Rightarrow> 'a" where
  "arr_max a = fold max (tl a) (hd a)"

text \<open>\<^verbatim>\<open>a[i]\<close> for an integer index: a negative index counts from the end. The callers
  check \<open>in_bounds\<close> first, where numpy raises \<^verbatim>\<open>IndexError\<close>.\<close>

definition at_idx :: "real list \<Rightarrow> int \<Rightarrow> real" where
  "at_idx a i = (if 0 \<le> i then a ! nat i else a ! nat (int (length a) + i))"

definition in_bounds :: "nat \<Rightarrow> int list \<Rightarrow> bool" where
  "in_bounds n idx = list_all (\<lambda>i. - int n \<le> i \<and> i < int n) idx"

text \<open>\<^verbatim>\<open>np.where(mask)[0]\<close>: the positions that hold \<^verbatim>\<open>True\<close>, ascending.\<close>

definition where_true :: "bool list \<Rightarrow> int list" where
  "where_true arr = map int (filter (\<lambda>i. arr ! i) [0..<length arr])"

text \<open>\<^verbatim>\<open>np.median\<close>: the middle element of the sorted array, or the mean of the two middle
  ones.\<close>

definition median :: "real list \<Rightarrow> real" where
  "median a =
    (let s = sort a; n = length s
     in if odd n then s ! (n div 2) else (s ! (n div 2 - 1) + s ! (n div 2)) / 2)"

text \<open>\<^verbatim>\<open>np.percentile(a, q)\<close> with the default linear interpolation between the two closest
  ranks.\<close>

definition percentile :: "real list \<Rightarrow> nat \<Rightarrow> real" where
  "percentile a q =
    (let s = sort a; n = length s;
         virtual_index = real q * real (n - 1) / 100;
         lo = nat \<lfloor>virtual_index\<rfloor>;
         hi = min (lo + 1) (n - 1);
         gamma = virtual_index - real lo
     in s ! lo + (s ! hi - s ! lo) * gamma)"

subsection \<open>Vertex statistics\<close>

record vertex_stats =
  st_x :: "real list"
  st_y :: "real list"
  st_z :: "real list"
  st_y_min :: real
  st_y_max :: real
  st_x_min :: real
  st_x_max :: real
  st_z_min :: real
  st_z_max :: real
  st_y_range :: real
  st_x_range :: real
  st_yn :: "real list"
  st_xn :: "real list"

text \<open>\<^verbatim>\<open>_compute_vertex_stats\<close>. \<^verbatim>\<open>y.min()\<close> of an empty array raises \<^verbatim>\<open>ValueError\<close>. The
  normalised coordinates divide by the range, or by 1 when the range is not positive.\<close>

definition compute_vertex_stats :: "vertex list \<Rightarrow> error + vertex_stats" where
  "compute_vertex_stats v_template =
    (let x = map fst v_template;
         y = map (\<lambda>v. fst (snd v)) v_template;
         z = map (\<lambda>v. snd (snd v)) v_template
     in if v_template = [] then Inl ValueError
        else
          let y_min = arr_min y; y_max = arr_max y;
              x_min = arr_min x; x_max = arr_max x;
              z_min = arr_min z; z_max = arr_max z;
              y_range = y_max - y_min;
              x_range = x_max - x_min
          in Inr \<lparr> st_x = x, st_y = y, st_z = z,
                   st_y_min = y_min, st_y_max = y_max,
                   st_x_min = x_min, st_x_max = x_max,
                   st_z_min = z_min, st_z_max = z_max,
                   st_y_range = y_range, st_x_range = x_range,
                   st_yn = map (\<lambda>vy. (vy - y_min) / (if y_range > 0 then y_range else 1)) y,
                   st_xn = map (\<lambda>vx. (vx - x_min) / (if x_range > 0 then x_range else 1)) x \<rparr>)"

subsection \<open>Mask conversion\<close>

text \<open>\<^verbatim>\<open>_mask_to_indices\<close>: \<^verbatim>\<open>None\<close> and empty arrays give no indices; a boolean array, and
  an integer array of length \<open>n_verts\<close> whose largest entry is at most 1, is read as a
  membership mask; any other integer array is taken as the index array itself.\<close>

definition mask_to_indices :: "nat \<Rightarrow> mask_val \<Rightarrow> int list" where
  "mask_to_indices n_verts mask_val =
    (case mask_val of
       NoneVal \<Rightarrow> []
     | BoolArr arr \<Rightarrow> (if arr = [] then [] else where_true arr)
     | IntArr arr \<Rightarrow>
         (if arr = [] then []
          else if length arr = n_verts \<and> arr_max arr \<le> 1
               then where_true (map (\<lambda>e. e \<noteq> 0) arr)
               else arr))"

text \<open>\<^verbatim>\<open>for key, val in flame_masks.items(): fm[key] = _mask_to_indices(val)\<close>\<close>

definition build_fm :: "nat \<Rightarrow> (string \<times> mask_val) list \<Rightarrow> (string \<rightharpoonup> int list)" where
  "build_fm n_verts flame_masks =
    fold (\<lambda>(key, val) fm. fm(key \<mapsto> mask_to_indices n_verts val)) flame_masks Map.empty"

text \<open>\<^verbatim>\<open>fm.get(key, np.array([], dtype=np.int64))\<close>\<close>

definition fm_get :: "(string \<rightharpoonup> int list) \<Rightarrow> string \<Rightarrow> int list" where
  "fm_get fm key = (case fm key of None \<Rightarrow> [] | Some idx \<Rightarrow> idx)"

subsection \<open>Helpers of the subdivider\<close>

text \<open>The local helpers \<^verbatim>\<open>_split_lr\<close>, \<^verbatim>\<open>_split_upper_lower\<close>, \<^verbatim>\<open>_median_y\<close>, \<^verbatim>\<open>_median_x\<close>,
  \<^verbatim>\<open>_percentile_y\<close> and \<^verbatim>\<open>_percentile_x\<close>, with the coordinate array they close over as
  first argument. (\<^verbatim>\<open>_filter_x_range\<close> and \<^verbatim>\<open>_filter_y_range\<close> are never called.)
  \<^verbatim>\<open>indices[pred(a[indices])]\<close> is \<open>filter (\<lambda>i. pred (at_idx a i)) indices\<close>.\<close>

definition split_lr :: "real list \<Rightarrow> int list \<Rightarrow> real \<Rightarrow> int list \<times> int list" where
  "split_lr x indices threshold =
    (if indices = [] then ([], [])
     else (filter (\<lambda>i. at_idx x i > threshold) indices,
           filter (\<lambda>i. \<not> at_idx x i > threshold) indices))"

definition split_upper_lower :: "real list \<Rightarrow> int list \<Rightarrow> real \<Rightarrow> int list \<times> int list" where
  "split_upper_lower y indices threshold =
    (if indices = [] then ([], [])
     else (filter (\<lambda>i. at_idx y i > threshold) indices,
           filter (\<lambda>i. \<not> at_idx y i > threshold) indices))"

definition median_y :: "real list \<Rightarrow> int list \<Rightarrow> real" where
  "median_y y idx = (if idx = [] then 0 else median (map (at_idx y) idx))"

definition median_x :: "real list \<Rightarrow> int list \<Rightarrow> real" where
  "median_x x idx = (if idx = [] then 0 else median (map (at_idx x) idx))"

definition percentile_y :: "real list \<Rightarrow> int list \<Rightarrow> nat \<Rightarrow> real" where
  "percentile_y y idx pct = (if idx = [] then 0 else percentile (map (at_idx y) idx) pct)"

definition percentile_x :: "real list \<Rightarrow> int list \<Rightarrow> nat \<Rightarrow> real" where
  "percentile_x x idx pct = (if idx = [] then 0 else percentile (map (at_idx x) idx) pct)"

text \<open>Sequencing of steps that may raise.\<close>

definition bind_err :: "error + 'a \<Rightarrow> ('a \<Rightarrow> error + 'b) \<Rightarrow> error + 'b" where
  "bind_err m f = (case m of Inl e \<Rightarrow> Inl e | Inr a \<Rightarrow> f a)"

fun for_each :: "('a \<Rightarrow> 's \<Rightarrow> error + 's) \<Rightarrow> 'a list \<Rightarrow> 's \<Rightarrow> error + 's" where
  "for_each body [] s = Inr s"
| "for_each body (a # as) s = bind_err (body a s) (for_each body as)"

subsection \<open>Forehead\<close>

text \<open>The body of \<^verbatim>\<open>for vi in forehead_idx\<close>: the index is appended to one of the three
  thirds, in the order of the index array.\<close>

definition forehead_thirds_step :: "real list \<Rightarrow> real \<Rightarrow> real \<Rightarrow> int \<Rightarrow> regions \<Rightarrow> regions" where
  "forehead_thirds_step x center_lo center_hi vi regions =
    (let vx = at_idx x vi
     in if vx > center_hi then append_zone ''forehead_left'' vi regions
        else if vx < center_lo then append_zone ''forehead_right'' vi regions
        else append_zone ''forehead_center'' vi regions)"

text \<open>The body of the block \<^verbatim>\<open>if len(forehead_idx) > 0\<close>.\<close>

definition forehead_zones ::
  "real list \<Rightarrow> real list \<Rightarrow> real \<Rightarrow> int list \<Rightarrow> regions \<Rightarrow> regions" where
  "forehead_zones x y midline_x forehead_idx regions =
      (let fh_y_med = median_y y forehead_idx;
           fh_y_lo = percentile_y y forehead_idx 15;
           fh_x_lo = percentile_x x forehead_idx 25;
           fh_x_hi = percentile_x x forehead_idx 75;
           fh_third_width = (fh_x_hi - fh_x_lo) / 3;
           center_lo = fh_x_lo + fh_third_width;
           center_hi = fh_x_hi - fh_third_width;
           regions = regions(''forehead'' \<mapsto> sort forehead_idx);
           regions = fold (forehead_thirds_step x center_lo center_hi) forehead_idx regions;
           brow_y_threshold = fh_y_lo + (fh_y_med - fh_y_lo) * 0.3;
           brow_candidates = filter (\<lambda>i. at_idx y i \<le> brow_y_threshold) forehead_idx;
           (brow_left_cands, brow_right_cands) = split_lr x brow_candidates midline_x;
           regions = regions(''brow_left'' \<mapsto> sort brow_left_cands);
           regions = regions(''brow_right'' \<mapsto> sort brow_right_cands);
           inner_brow_x_range = (fh_x_hi - fh_x_lo) * 0.15;
           regions =
             (if brow_left_cands \<noteq> []
              then regions(''brow_inner_left'' \<mapsto>
                sort (filter (\<lambda>i. at_idx x i < midline_x + inner_brow_x_range) brow_left_cands))
              else regions);
           regions =
             (if brow_right_cands \<noteq> []
              then regions(''brow_inner_right'' \<mapsto>
                sort (filter (\<lambda>i. at_idx x i > midline_x - inner_brow_x_range) brow_right_cands))
              else regions);
           temple_x_threshold_hi = percentile_x x forehead_idx 85;
           temple_x_threshold_lo = percentile_x x forehead_idx 15;
           temple_y_lo = percentile_y y forehead_idx 10;
           temple_y_hi = percentile_y y forehead_idx 70;
           temple_candidates =
             filter (\<lambda>i. at_idx y i \<ge> temple_y_lo \<and> at_idx y i \<le> temple_y_hi) forehead_idx;
           regions =
             (if temple_candidates \<noteq> []
              then (regions(''temple_left'' \<mapsto>
                      sort (filter (\<lambda>i. at_idx x i > temple_x_threshold_hi) temple_candidates)))
                   (''temple_right'' \<mapsto>
                      sort (filter (\<lambda>i. at_idx x i < temple_x_threshold_lo) temple_candidates))
              else regions)
       in regions)"

text \<open>The block itself. Its first statement indexes \<open>y\<close> with the whole index array, which
  raises \<^verbatim>\<open>IndexError\<close> when an index is out of bounds.\<close>

definition forehead_section ::
  "real list \<Rightarrow> real list \<Rightarrow> real \<Rightarrow> int list \<Rightarrow> regions \<Rightarrow> error + regions" where
  "forehead_section x y midline_x forehead_idx regions =
    (if forehead_idx = [] then Inr regions
     else if \<not> in_bounds (length y) forehead_idx then Inl IndexError
     else Inr (forehead_zones x y midline_x forehead_idx regions))"

subsection \<open>Eye regions\<close>

text \<open>One entry of the list the eye loop runs over: the side, its eye-region indices and the
  names of the six zones it fills.\<close>

type_synonym eye_entry =
  "string \<times> int list \<times> string \<times> string \<times> string \<times> string \<times> string \<times> string"

text \<open>The indices the eye zones are cut from: the eye region without the eyeball indices of
  that side, or the whole eye region when nothing is left.\<close>

definition eye_skin :: "string \<Rightarrow> int list \<Rightarrow> int list \<Rightarrow> int list \<Rightarrow> int list" where
  "eye_skin side eye_idx left_eyeball_idx right_eyeball_idx =
    (let eyeball_set =
           (if side = ''left'' \<and> left_eyeball_idx \<noteq> [] then set left_eyeball_idx
            else if side = ''right'' \<and> right_eyeball_idx \<noteq> [] then set right_eyeball_idx
            else {});
         eye_skin_idx = filter (\<lambda>vi. vi \<notin> eyeball_set) eye_idx
     in if eye_skin_idx = [] then eye_idx else eye_skin_idx)"

text \<open>The zones of one side, cut from the eye-skin indices; the median and the percentiles
  are those of the whole eye region.\<close>

definition eye_side_zones ::
  "real list \<Rightarrow> real list \<Rightarrow> string \<Rightarrow> int list \<Rightarrow> int list
    \<Rightarrow> string \<Rightarrow> string \<Rightarrow> string \<Rightarrow> string \<Rightarrow> string \<Rightarrow> string \<Rightarrow> regions \<Rightarrow> regions" where
  "eye_side_zones x y side eye_idx eye_skin_idx
      prefix_upper prefix_lower corner_inner corner_outer under_eye_name tear_trough_name regions =
        (let eye_med_y = median_y y eye_idx;
             eye_y_lo = percentile_y y eye_idx 10;
             eye_y_hi = percentile_y y eye_idx 90;
             (upper_eye, lower_eye) = split_upper_lower y eye_skin_idx eye_med_y;
             regions = regions(prefix_upper \<mapsto> sort upper_eye);
             regions = regions(prefix_lower \<mapsto> sort lower_eye);
             corner_band =
               filter (\<lambda>i. \<bar>at_idx y i - eye_med_y\<bar> < (eye_y_hi - eye_y_lo) * 0.3) eye_skin_idx;
             regions =
               (if corner_band \<noteq> [] then
                  (if side = ''left'' then
                     let inner_thresh = percentile_x x corner_band 15;
                         outer_thresh = percentile_x x corner_band 85
                     in (regions(corner_inner \<mapsto>
                           sort (filter (\<lambda>i. at_idx x i \<le> inner_thresh) corner_band)))
                        (corner_outer \<mapsto>
                           sort (filter (\<lambda>i. at_idx x i \<ge> outer_thresh) corner_band))
                   else
                     let inner_thresh = percentile_x x corner_band 85;
                         outer_thresh = percentile_x x corner_band 15
                     in (regions(corner_inner \<mapsto>
                           sort (filter (\<lambda>i. at_idx x i \<ge> inner_thresh) corner_band)))
                        (corner_outer \<mapsto>
                           sort (filter (\<lambda>i. at_idx x i \<le> outer_thresh) corner_band)))
                else regions);
             under_eye_candidates = lower_eye;
             regions = regions(under_eye_name \<mapsto> sort under_eye_candidates);
             regions =
               (if under_eye_candidates \<noteq> [] then
                  let ue_med_x = median_x x under_eye_candidates
                  in if side = ''left''
                     then regions(tear_trough_name \<mapsto>
                       sort (filter (\<lambda>i. at_idx x i < ue_med_x) under_eye_candidates))
                     else regions(tear_trough_name \<mapsto>
                       sort (filter (\<lambda>i. at_idx x i > ue_med_x) under_eye_candidates))
                else regions)
         in regions)"

text \<open>The body of the loop over the two sides; an empty eye region is skipped, and
  \<^verbatim>\<open>_median_y(eye_idx)\<close> raises on an index out of bounds.\<close>

definition eye_side_step ::
  "real list \<Rightarrow> real list \<Rightarrow> int list \<Rightarrow> int list \<Rightarrow> eye_entry \<Rightarrow> regions \<Rightarrow> error + regions" where
  "eye_side_step x y left_eyeball_idx right_eyeball_idx entry regions =
    (case entry of
       (side, eye_idx, prefix_upper, prefix_lower, corner_inner, corner_outer,
          under_eye_name, tear_trough_name) \<Rightarrow>
       if eye_idx = [] then Inr regions
       else if \<not> in_bounds (length y) eye_idx then Inl IndexError
       else
         let eye_skin_idx = eye_skin side eye_idx left_eyeball_idx right_eyeball_idx
         in Inr (eye_side_zones x y side eye_idx eye_skin_idx
                   prefix_upper prefix_lower corner_inner corner_outer
                   under_eye_name tear_trough_name regions))"

definition eye_entries :: "int list \<Rightarrow> int list \<Rightarrow> eye_entry list" where
  "eye_entries left_eye_idx right_eye_idx =
    [(''left'', left_eye_idx, ''eye_left_upper'', ''eye_left_lower'',
      ''eye_left_corner_inner'', ''eye_left_corner_outer'',
      ''under_eye_left'', ''tear_trough_left''),
     (''right'', right_eye_idx, ''eye_right_upper'', ''eye_right_lower'',
      ''eye_right_corner_inner'', ''eye_right_corner_outer'',
      ''under_eye_right'', ''tear_trough_right'')]"

subsection \<open>Nose\<close>

text \<open>The block \<^verbatim>\<open>if len(nose_idx) > 0\<close>. The nose indices were already used as an index
  (\<^verbatim>\<open>_median_y(nose_idx)\<close>) before the first block, so this one cannot raise.\<close>

definition nose_section ::
  "real list \<Rightarrow> real list \<Rightarrow> real \<Rightarrow> real \<Rightarrow> int list \<Rightarrow> regions \<Rightarrow> regions" where
  "nose_section x y midline_x nose_med_y nose_idx regions =
    (if nose_idx = [] then regions
     else
       let nose_y_lo = percentile_y y nose_idx 5;
           nose_y_hi = percentile_y y nose_idx 95;
           nose_y_range = nose_y_hi - nose_y_lo;
           nose_x_lo = percentile_x x nose_idx 10;
           nose_x_hi = percentile_x x nose_idx 90;
           bridge_y_thresh = nose_y_lo + nose_y_range * 0.40;
           bridge_x_half = (nose_x_hi - nose_x_lo) * 0.35;
           bridge_cands =
             filter (\<lambda>i. at_idx y i > bridge_y_thresh \<and> \<bar>at_idx x i - midline_x\<bar> < bridge_x_half)
               nose_idx;
           regions = regions(''nose_bridge'' \<mapsto> sort bridge_cands);
           regions = regions(''nose_dorsum'' \<mapsto> sort bridge_cands);
           bridge_mid_y = (if bridge_cands \<noteq> [] then median_y y bridge_cands else nose_med_y);
           regions =
             (if bridge_cands \<noteq> []
              then (regions(''nose_bridge_upper'' \<mapsto>
                      sort (filter (\<lambda>i. at_idx y i > bridge_mid_y) bridge_cands)))
                   (''nose_bridge_lower'' \<mapsto>
                      sort (filter (\<lambda>i. at_idx y i \<le> bridge_mid_y) bridge_cands))
              else regions);
           tip_y_thresh = nose_y_lo + nose_y_range * 0.30;
           tip_cands =
             filter (\<lambda>i. at_idx y i \<le> tip_y_thresh \<and> at_idx y i > nose_y_lo + nose_y_range * 0.10)
               nose_idx;
           tip_cands =
             (if tip_cands \<noteq> []
              then let tip_x_half = (nose_x_hi - nose_x_lo) * 0.35
                   in filter (\<lambda>i. \<bar>at_idx x i - midline_x\<bar> < tip_x_half) tip_cands
              else tip_cands);
           regions = regions(''nose_tip'' \<mapsto> sort tip_cands);
           regions =
             (if tip_cands \<noteq> []
              then (regions(''nose_tip_left'' \<mapsto>
                      sort (filter (\<lambda>i. at_idx x i > midline_x) tip_cands)))
                   (''nose_tip_right'' \<mapsto>
                      sort (filter (\<lambda>i. at_idx x i \<le> midline_x) tip_cands))
              else regions);
           nostril_y_thresh = nose_y_lo + nose_y_range * 0.30;
           nostril_cands = filter (\<lambda>i. at_idx y i \<le> nostril_y_thresh) nose_idx;
           nostril_x_inner = (nose_x_hi - nose_x_lo) * 0.15;
           regions =
             (if nostril_cands \<noteq> []
              then (regions(''nostril_left'' \<mapsto>
                      sort (filter (\<lambda>i. at_idx x i > midline_x + nostril_x_inner) nostril_cands)))
                   (''nostril_right'' \<mapsto>
                      sort (filter (\<lambda>i. at_idx x i < midline_x - nostril_x_inner) nostril_cands))
              else regions)
       in regions)"

subsection \<open>Lips\<close>

text \<open>The block \<^verbatim>\<open>if len(lips_idx) > 0\<close>; the lips indices were used as an index before the
  first block as well.\<close>

definition lips_section :: "real list \<Rightarrow> real list \<Rightarrow> int list \<Rightarrow> regions \<Rightarrow> regions" where
  "lips_section x y lips_idx regions =
    (if lips_idx = [] then regions
     else
       let lips_y_med = median_y y lips_idx;
           lips_x_lo = percentile_x x lips_idx 5;
           lips_x_hi = percentile_x x lips_idx 95;
           lips_x_third = (lips_x_hi - lips_x_lo) / 3;
           (upper_lip, lower_lip) = split_upper_lower y lips_idx lips_y_med;
           regions = regions(''lip_upper'' \<mapsto> sort upper_lip);
           regions = regions(''lip_lower'' \<mapsto> sort lower_lip);
           center_lo_x = lips_x_lo + lips_x_third;
           center_hi_x = lips_x_hi - lips_x_third;
           regions =
             (if upper_lip \<noteq> []
              then ((regions(''lip_upper_left'' \<mapsto>
                       sort (filter (\<lambda>i. at_idx x i > center_hi_x) upper_lip)))
                    (''lip_upper_right'' \<mapsto>
                       sort (filter (\<lambda>i. at_idx x i < center_lo_x) upper_lip)))
                   (''lip_upper_center'' \<mapsto>
                       sort (filter (\<lambda>i. at_idx x i \<ge> center_lo_x \<and> at_idx x i \<le> center_hi_x)
                         upper_lip))
              else regions);
           regions =
             (if lower_lip \<noteq> []
              then ((regions(''lip_lower_left'' \<mapsto>
                       sort (filter (\<lambda>i. at_idx x i > center_hi_x) lower_lip)))
                    (''lip_lower_right'' \<mapsto>
                       sort (filter (\<lambda>i. at_idx x i < center_lo_x) lower_lip)))
                   (''lip_lower_center'' \<mapsto>
                       sort (filter (\<lambda>i. at_idx x i \<ge> center_lo_x \<and> at_idx x i \<le> center_hi_x)
                         lower_lip))
              else regions);
           lips_y = map (at_idx y) lips_idx;
           corner_band_y_lo = lips_y_med - (arr_max lips_y - arr_min lips_y) * 0.20;
           corner_band_y_hi = lips_y_med + (arr_max lips_y - arr_min lips_y) * 0.20;
           corner_cands =
             filter (\<lambda>i. at_idx y i \<ge> corner_band_y_lo \<and> at_idx y i \<le> corner_band_y_hi) lips_idx;
           regions =
             (if corner_cands \<noteq> []
              then let corner_x_thresh_hi = percentile_x x corner_cands 85;
                       corner_x_thresh_lo = percentile_x x corner_cands 15
                   in (regions(''lip_corner_left'' \<mapsto>
                         sort (filter (\<lambda>i. at_idx x i > corner_x_thresh_hi) corner_cands)))
                      (''lip_corner_right'' \<mapsto>
                         sort (filter (\<lambda>i. at_idx x i < corner_x_thresh_lo) corner_cands))
              else regions)
       in regions)"

subsection \<open>Face remainder\<close>

text \<open>The body of the block \<^verbatim>\<open>if len(face_remainder) > 0\<close>. \<open>fr_y\<close> and \<open>fr_x\<close> are the
  coordinates of the face-remainder vertices, read here through the index rather than
  through the position in \<^verbatim>\<open>face_remainder\<close>.\<close>

definition face_remainder_zones ::
  "real list \<Rightarrow> real list \<Rightarrow> real \<Rightarrow> int list \<Rightarrow> int list \<Rightarrow> int list \<Rightarrow> regions \<Rightarrow> regions" where
  "face_remainder_zones x y midline_x nose_idx lips_idx face_remainder regions =
      (let fr_y = at_idx y; fr_x = at_idx x;
           fr_x_all = map (at_idx x) face_remainder;
           fr_y_lo = percentile_y y face_remainder 5;
           fr_y_hi = percentile_y y face_remainder 95;
           fr_y_range = fr_y_hi - fr_y_lo;
           chin_y_thresh = fr_y_lo + fr_y_range * 0.25;
           chin_x_half = (arr_max fr_x_all - arr_min fr_x_all) * 0.25;
           chin_cands =
             filter (\<lambda>i. fr_y i \<le> chin_y_thresh \<and> \<bar>fr_x i - midline_x\<bar> < chin_x_half)
               face_remainder;
           regions = regions(''chin'' \<mapsto> sort chin_cands);
           regions =
             (if chin_cands \<noteq> []
              then let chin_third = chin_x_half * 2 / 3
                   in ((regions(''chin_center'' \<mapsto>
                          sort (filter (\<lambda>i. \<bar>at_idx x i - midline_x\<bar> < chin_third / 2) chin_cands)))
                       (''chin_left'' \<mapsto>
                          sort (filter (\<lambda>i. at_idx x i > midline_x + chin_third / 2) chin_cands)))
                      (''chin_right'' \<mapsto>
                          sort (filter (\<lambda>i. at_idx x i < midline_x - chin_third / 2) chin_cands))
              else regions);
           jaw_y_thresh = fr_y_lo + fr_y_range * 0.40;
           jaw_x_inner = chin_x_half;
           jaw_cands =
             filter (\<lambda>i. fr_y i \<le> jaw_y_thresh \<and> \<bar>fr_x i - midline_x\<bar> \<ge> jaw_x_inner)
               face_remainder;
           (jaw_left, jaw_right) = split_lr x jaw_cands midline_x;
           regions = regions(''jaw_left'' \<mapsto> sort jaw_left);
           regions = regions(''jaw_right'' \<mapsto> sort jaw_right);
           regions =
             (if jaw_left \<noteq> []
              then let jl_y_thresh = percentile_y y jaw_left 35
                   in regions(''jawline_left'' \<mapsto>
                        sort (filter (\<lambda>i. at_idx y i < jl_y_thresh) jaw_left))
              else regions);
           regions =
             (if jaw_right \<noteq> []
              then let jr_y_thresh = percentile_y y jaw_right 35
                   in regions(''jawline_right'' \<mapsto>
                        sort (filter (\<lambda>i. at_idx y i < jr_y_thresh) jaw_right))
              else regions);
           cheek_y_lo = fr_y_lo + fr_y_range * 0.25;
           cheek_y_hi = fr_y_lo + fr_y_range * 0.70;
           cheek_x_inner = (arr_max fr_x_all - arr_min fr_x_all) * 0.10;
           cheek_cands =
             filter (\<lambda>i. fr_y i \<ge> cheek_y_lo \<and> fr_y i \<le> cheek_y_hi
                          \<and> \<bar>fr_x i - midline_x\<bar> > cheek_x_inner)
               face_remainder;
           (cheek_left, cheek_right) = split_lr x cheek_cands midline_x;
           regions = regions(''cheek_left'' \<mapsto> sort cheek_left);
           regions = regions(''cheek_right'' \<mapsto> sort cheek_right);
           cheek_mid_y =
             (if cheek_cands \<noteq> [] then median_y y cheek_cands else (cheek_y_lo + cheek_y_hi) / 2);
           regions =
             (if cheek_left \<noteq> []
              then (regions(''cheekbone_left'' \<mapsto>
                      sort (filter (\<lambda>i. at_idx y i > cheek_mid_y) cheek_left)))
                   (''cheek_hollow_left'' \<mapsto>
                      sort (filter (\<lambda>i. at_idx y i \<le> cheek_mid_y) cheek_left))
              else regions);
           regions =
             (if cheek_right \<noteq> []
              then (regions(''cheekbone_right'' \<mapsto>
                      sort (filter (\<lambda>i. at_idx y i > cheek_mid_y) cheek_right)))
                   (''cheek_hollow_right'' \<mapsto>
                      sort (filter (\<lambda>i. at_idx y i \<le> cheek_mid_y) cheek_right))
              else regions);
           regions =
             (if nose_idx \<noteq> [] \<and> lips_idx \<noteq> []
              then let nl_y_lo = percentile_y y lips_idx 50;
                       nl_y_hi = percentile_y y nose_idx 30;
                       nose_x_range = percentile_x x nose_idx 90 - percentile_x x nose_idx 10;
                       nl_x_inner = nose_x_range * 0.4;
                       nl_x_outer = nose_x_range * 0.9;
                       nl_cands =
                         filter (\<lambda>i. fr_y i \<ge> nl_y_lo \<and> fr_y i \<le> nl_y_hi
                                      \<and> \<bar>fr_x i - midline_x\<bar> \<ge> nl_x_inner
                                      \<and> \<bar>fr_x i - midline_x\<bar> \<le> nl_x_outer)
                           face_remainder;
                       (nl_left, nl_right) = split_lr x nl_cands midline_x
                   in (regions(''nasolabial_left'' \<mapsto> sort nl_left))
                      (''nasolabial_right'' \<mapsto> sort nl_right)
              else regions)
       in regions)"

text \<open>The block itself; \<^verbatim>\<open>y[face_remainder]\<close> is its first statement.\<close>

definition face_remainder_section ::
  "real list \<Rightarrow> real list \<Rightarrow> real \<Rightarrow> int list \<Rightarrow> int list \<Rightarrow> int list \<Rightarrow> regions
    \<Rightarrow> error + regions" where
  "face_remainder_section x y midline_x nose_idx lips_idx face_remainder regions =
    (if face_remainder = [] then Inr regions
     else if \<not> in_bounds (length y) face_remainder then Inl IndexError
     else Inr (face_remainder_zones x y midline_x nose_idx lips_idx face_remainder regions))"

subsection \<open>Ears, neck, temple fallback and the full face\<close>

definition ears_neck_section :: "int list \<Rightarrow> int list \<Rightarrow> int list \<Rightarrow> regions \<Rightarrow> regions" where
  "ears_neck_section left_ear_idx right_ear_idx neck_idx regions =
    (let regions = regions(''ear_left'' \<mapsto> sort left_ear_idx);
         regions = regions(''ear_right'' \<mapsto> sort right_ear_idx);
         regions = regions(''neck'' \<mapsto> sort neck_idx)
     in regions)"

text \<open>\<^verbatim>\<open>if not regions['temple_left'] and len(scalp_idx) > 0\<close>: only the left temple is looked
  at.\<close>

definition temple_fallback_zones ::
  "real list \<Rightarrow> real list \<Rightarrow> int list \<Rightarrow> regions \<Rightarrow> regions" where
  "temple_fallback_zones x y scalp_idx regions =
      (let scalp_y_med = median_y y scalp_idx;
           scalp_low = filter (\<lambda>i. at_idx y i < scalp_y_med) scalp_idx
       in if scalp_low \<noteq> [] then
            let temple_x_thresh = percentile_x x scalp_low 70;
                regions = regions(''temple_left'' \<mapsto>
                  sort (filter (\<lambda>i. at_idx x i > temple_x_thresh) scalp_low));
                temple_x_thresh_r = percentile_x x scalp_low 30;
                regions = regions(''temple_right'' \<mapsto>
                  sort (filter (\<lambda>i. at_idx x i < temple_x_thresh_r) scalp_low))
            in regions
          else regions)"

definition temple_fallback_section ::
  "real list \<Rightarrow> real list \<Rightarrow> int list \<Rightarrow> regions \<Rightarrow> error + regions" where
  "temple_fallback_section x y scalp_idx regions =
    (if the (regions ''temple_left'') = [] \<and> scalp_idx \<noteq> [] then
       if \<not> in_bounds (length y) scalp_idx then Inl IndexError
       else Inr (temple_fallback_zones x y scalp_idx regions)
     else Inr regions)"

text \<open>\<^verbatim>\<open>full_face_set\<close> is a Python set; \<^verbatim>\<open>sorted(full_face_set)\<close> is the sorted list of its
  distinct elements.\<close>

definition exclude_from_full :: "string list" where
  "exclude_from_full = [''neck'', ''ear_left'', ''ear_right'', ''full_face'']"

definition full_face_section ::
  "int list \<Rightarrow> int list \<Rightarrow> int list \<Rightarrow> int list \<Rightarrow> int list \<Rightarrow> int list \<Rightarrow> regions \<Rightarrow> regions" where
  "full_face_section face_idx forehead_idx nose_idx lips_idx left_eye_idx right_eye_idx regions =
    (let full_face_set =
           concat (map (\<lambda>name. the (regions name))
                    (filter (\<lambda>name. name \<notin> set exclude_from_full) ALL_CLINICAL_ZONES))
           @ (if face_idx \<noteq> [] then face_idx else [])
           @ (if forehead_idx \<noteq> [] then forehead_idx else [])
           @ (if nose_idx \<noteq> [] then nose_idx else [])
           @ (if lips_idx \<noteq> [] then lips_idx else [])
           @ (if left_eye_idx \<noteq> [] then left_eye_idx else [])
           @ (if right_eye_idx \<noteq> [] then right_eye_idx else [])
     in regions(''full_face'' \<mapsto> sort (remdups full_face_set)))"

subsection \<open>The mask-guided subdivider\<close>

text \<open>The keys whose indices are taken out of the \<^verbatim>\<open>face\<close> mask.\<close>

definition specific_keys :: "string list" where
  "specific_keys =
    [''nose'', ''lips'', ''forehead'', ''left_eye_region'', ''right_eye_region'',
     ''neck'', ''left_ear'', ''right_ear'', ''left_eyeball'', ''right_eyeball'']"

definition specific_regions :: "(string \<rightharpoonup> int list) \<Rightarrow> int set" where
  "specific_regions fm =
    set (concat (map (\<lambda>key. case fm key of None \<Rightarrow> [] | Some idx \<Rightarrow> idx) specific_keys))"

text \<open>\<^verbatim>\<open>sorted(set(face_idx.tolist()) - specific_regions)\<close>, or nothing for an empty face mask.\<close>

definition face_remainder_of :: "int list \<Rightarrow> int set \<Rightarrow> int list" where
  "face_remainder_of face_idx specific =
    (if face_idx \<noteq> [] then sort (remdups (filter (\<lambda>i. i \<notin> specific) face_idx)) else [])"

text \<open>\<^verbatim>\<open>subdivide_flame_masks_to_clinical_zones\<close>. The statistics raise on an empty vertex
  array. \<^verbatim>\<open>_median_y(nose_idx)\<close> and \<^verbatim>\<open>_median_y(lips_idx)\<close> index the coordinates with the
  nose and lips indices before any zone is filled.\<close>

definition subdivide_flame_masks_to_clinical_zones ::
  "vertex list \<Rightarrow> (string \<times> mask_val) list \<Rightarrow> error + regions" where
  "subdivide_flame_masks_to_clinical_zones v_template flame_masks =
    bind_err (compute_vertex_stats v_template) (\<lambda>stats.
      let n_verts = length v_template;
          x = st_x stats; y = st_y stats;
          fm = build_fm n_verts flame_masks;
          nose_idx = fm_get fm ''nose'';
          lips_idx = fm_get fm ''lips'';
          forehead_idx = fm_get fm ''forehead'';
          left_eye_idx = fm_get fm ''left_eye_region'';
          right_eye_idx = fm_get fm ''right_eye_region'';
          face_idx = fm_get fm ''face'';
          neck_idx = fm_get fm ''neck'';
          left_ear_idx = fm_get fm ''left_ear'';
          right_ear_idx = fm_get fm ''right_ear'';
          scalp_idx = fm_get fm ''scalp'';
          left_eyeball_idx = fm_get fm ''left_eyeball'';
          right_eyeball_idx = fm_get fm ''right_eyeball'';
          face_remainder = face_remainder_of face_idx (specific_regions fm);
          regions = init_regions
      in if \<not> in_bounds n_verts nose_idx then Inl IndexError
         else if \<not> in_bounds n_verts lips_idx then Inl IndexError
         else
           let nose_med_y = median_y y nose_idx;
               midline_x = (if nose_idx \<noteq> [] then median (map (at_idx x) nose_idx) else 0)
           in
           bind_err (forehead_section x y midline_x forehead_idx regions) (\<lambda>regions.
           bind_err (for_each (eye_side_step x y left_eyeball_idx right_eyeball_idx)
                       (eye_entries left_eye_idx right_eye_idx) regions) (\<lambda>regions.
           let regions = nose_section x y midline_x nose_med_y nose_idx regions;
               regions = lips_section x y lips_idx regions
           in
           bind_err (face_remainder_section x y midline_x nose_idx lips_idx face_remainder regions)
             (\<lambda>regions.
           let regions = ears_neck_section left_ear_idx right_ear_idx neck_idx regions
           in
           bind_err (temple_fallback_section x y scalp_idx regions) (\<lambda>regions.
           Inr (full_face_section face_idx forehead_idx nose_idx lips_idx
                  left_eye_idx right_eye_idx regions))))))"

subsection \<open>The position-only classifier\<close>

text \<open>The classifier divides numpy scalars by the coordinate ranges. A numpy division by zero
  does not raise: it gives \<^verbatim>\<open>nan\<close> for \<open>0 / 0\<close> (and an infinity otherwise). In the
  classifier the dividend is \<open>0\<close> whenever the divisor is (all coordinates of that axis are
  equal), so \<open>None\<close> is \<^verbatim>\<open>nan\<close>. Every comparison with \<^verbatim>\<open>nan\<close> is false.\<close>

definition fdiv :: "real \<Rightarrow> real \<Rightarrow> real option" where
  "fdiv a b = (if b = 0 then None else Some (a / b))"

definition flt :: "real option \<Rightarrow> real \<Rightarrow> bool" where
  "flt a c = (case a of None \<Rightarrow> False | Some v \<Rightarrow> v < c)"

definition fgt :: "real option \<Rightarrow> real \<Rightarrow> bool" where
  "fgt a c = (case a of None \<Rightarrow> False | Some v \<Rightarrow> v > c)"

definition fabs :: "real option \<Rightarrow> real option" where
  "fabs a = map_option abs a"

definition fsub :: "real option \<Rightarrow> real \<Rightarrow> real option" where
  "fsub a c = map_option (\<lambda>v. v - c) a"

text \<open>The loop body after the neck test and the front-face gate, one definition for each
  commented group of the source, in the source's order.\<close>

type_synonym zone_rule = "real option \<Rightarrow> real option \<Rightarrow> int \<Rightarrow> regions \<Rightarrow> regions"

definition rule_full_face :: zone_rule where
  "rule_full_face yn xn vi regions =
    (if fgt yn 0.10 then append_zone ''full_face'' vi regions else regions)"

definition rule_forehead :: zone_rule where
  "rule_forehead yn xn vi regions =
    (if fgt yn 0.75 then
       let regions = append_zone ''forehead'' vi regions
       in if fgt xn 0.15 then append_zone ''forehead_left'' vi regions
          else if flt xn (- 0.15) then append_zone ''forehead_right'' vi regions
          else append_zone ''forehead_center'' vi regions
     else regions)"

definition rule_brows :: zone_rule where
  "rule_brows yn xn vi regions =
    (if fgt yn 0.65 \<and> flt yn 0.75 then
       let regions =
             (if fgt xn 0.10 then
                let regions = append_zone ''brow_left'' vi regions
                in if flt xn 0.30 then append_zone ''brow_inner_left'' vi regions else regions
              else regions)
       in if flt xn (- 0.10) then
            let regions = append_zone ''brow_right'' vi regions
            in if fgt xn (- 0.30) then append_zone ''brow_inner_right'' vi regions else regions
          else regions
     else regions)"

definition rule_eyes :: zone_rule where
  "rule_eyes yn xn vi regions =
    (if fgt yn 0.55 \<and> flt yn 0.68 then
       let regions =
             (if fgt xn 0.15 \<and> flt xn 0.55 then
                let regions =
                      (if fgt yn 0.62 then append_zone ''eye_left_upper'' vi regions
                       else append_zone ''eye_left_lower'' vi regions);
                    regions =
                      (if flt xn 0.25 then append_zone ''eye_left_corner_inner'' vi regions
                       else regions)
                in if fgt xn 0.45 then append_zone ''eye_left_corner_outer'' vi regions
                   else regions
              else regions)
       in if fgt xn (- 0.55) \<and> flt xn (- 0.15) then
            let regions =
                  (if fgt yn 0.62 then append_zone ''eye_right_upper'' vi regions
                   else append_zone ''eye_right_lower'' vi regions);
                regions =
                  (if fgt xn (- 0.25) then append_zone ''eye_right_corner_inner'' vi regions
                   else regions)
            in if flt xn (- 0.45) then append_zone ''eye_right_corner_outer'' vi regions
               else regions
          else regions
     else regions)"

definition rule_under_eye :: zone_rule where
  "rule_under_eye yn xn vi regions =
    (if fgt yn 0.48 \<and> flt yn 0.58 then
       let regions =
             (if fgt xn 0.10 \<and> flt xn 0.50 then
                let regions = append_zone ''under_eye_left'' vi regions
                in if flt xn 0.30 then append_zone ''tear_trough_left'' vi regions else regions
              else regions)
       in if fgt xn (- 0.50) \<and> flt xn (- 0.10) then
            let regions = append_zone ''under_eye_right'' vi regions
            in if fgt xn (- 0.30) then append_zone ''tear_trough_right'' vi regions else regions
          else regions
     else regions)"

definition rule_nose_bridge :: zone_rule where
  "rule_nose_bridge yn xn vi regions =
    (if fgt yn 0.35 \<and> flt yn 0.60 \<and> flt (fabs xn) 0.15 then
       let regions = append_zone ''nose_bridge'' vi regions;
           regions = append_zone ''nose_dorsum'' vi regions
       in if fgt yn 0.48 then append_zone ''nose_bridge_upper'' vi regions
          else append_zone ''nose_bridge_lower'' vi regions
     else regions)"

definition rule_nose_tip :: zone_rule where
  "rule_nose_tip yn xn vi regions =
    (if fgt yn 0.30 \<and> flt yn 0.40 \<and> flt (fabs xn) 0.15 then
       let regions = append_zone ''nose_tip'' vi regions
       in if fgt xn 0 then append_zone ''nose_tip_left'' vi regions
          else append_zone ''nose_tip_right'' vi regions
     else regions)"

definition rule_nostrils :: zone_rule where
  "rule_nostrils yn xn vi regions =
    (if fgt yn 0.28 \<and> flt yn 0.38 then
       let regions =
             (if fgt xn 0.08 \<and> flt xn 0.22 then append_zone ''nostril_left'' vi regions
              else regions)
       in if fgt xn (- 0.22) \<and> flt xn (- 0.08) then append_zone ''nostril_right'' vi regions
          else regions
     else regions)"

definition rule_cheeks :: zone_rule where
  "rule_cheeks yn xn vi regions =
    (if fgt yn 0.30 \<and> flt yn 0.55 \<and> fgt (fabs xn) 0.25 then
       if fgt xn 0 then
         let regions = append_zone ''cheek_left'' vi regions
         in if fgt yn 0.42 then append_zone ''cheekbone_left'' vi regions
            else append_zone ''cheek_hollow_left'' vi regions
       else
         let regions = append_zone ''cheek_right'' vi regions
         in if fgt yn 0.42 then append_zone ''cheekbone_right'' vi regions
            else append_zone ''cheek_hollow_right'' vi regions
     else regions)"

definition rule_nasolabial :: zone_rule where
  "rule_nasolabial yn xn vi regions =
    (if fgt yn 0.28 \<and> flt yn 0.48 \<and> fgt (fabs xn) 0.15 \<and> flt (fabs xn) 0.28 then
       if fgt xn 0 then append_zone ''nasolabial_left'' vi regions
       else append_zone ''nasolabial_right'' vi regions
     else regions)"

definition rule_lips :: zone_rule where
  "rule_lips yn xn vi regions =
    (if fgt yn 0.22 \<and> flt yn 0.32 \<and> flt (fabs xn) 0.25 then
       let regions =
             (if fgt yn 0.27 then
                let regions = append_zone ''lip_upper'' vi regions
                in if fgt xn 0.06 then append_zone ''lip_upper_left'' vi regions
                   else if flt xn (- 0.06) then append_zone ''lip_upper_right'' vi regions
                   else append_zone ''lip_upper_center'' vi regions
              else
                let regions = append_zone ''lip_lower'' vi regions
                in if fgt xn 0.06 then append_zone ''lip_lower_left'' vi regions
                   else if flt xn (- 0.06) then append_zone ''lip_lower_right'' vi regions
                   else append_zone ''lip_lower_center'' vi regions)
       in if flt (fabs (fsub yn 0.27)) 0.03 \<and> fgt (fabs xn) 0.18 then
            if fgt xn 0 then append_zone ''lip_corner_left'' vi regions
            else append_zone ''lip_corner_right'' vi regions
          else regions
     else regions)"

definition rule_chin :: zone_rule where
  "rule_chin yn xn vi regions =
    (if fgt yn 0.12 \<and> flt yn 0.24 \<and> flt (fabs xn) 0.30 then
       let regions = append_zone ''chin'' vi regions
       in if flt (fabs xn) 0.10 then append_zone ''chin_center'' vi regions
          else if fgt xn 0 then append_zone ''chin_left'' vi regions
          else append_zone ''chin_right'' vi regions
     else regions)"

definition rule_jaw :: zone_rule where
  "rule_jaw yn xn vi regions =
    (if fgt yn 0.10 \<and> flt yn 0.30 \<and> fgt (fabs xn) 0.25 then
       if fgt xn 0 then
         let regions = append_zone ''jaw_left'' vi regions
         in if flt yn 0.18 then append_zone ''jawline_left'' vi regions else regions
       else
         let regions = append_zone ''jaw_right'' vi regions
         in if flt yn 0.18 then append_zone ''jawline_right'' vi regions else regions
     else regions)"

definition rule_temples :: zone_rule where
  "rule_temples yn xn vi regions =
    (if fgt yn 0.60 \<and> flt yn 0.78 \<and> fgt (fabs xn) 0.50 then
       if fgt xn 0 then append_zone ''temple_left'' vi regions
       else append_zone ''temple_right'' vi regions
     else regions)"

definition rule_ears :: zone_rule where
  "rule_ears yn xn vi regions =
    (if fgt yn 0.40 \<and> flt yn 0.70 \<and> fgt (fabs xn) 0.80 then
       if fgt xn 0 then append_zone ''ear_left'' vi regions
       else append_zone ''ear_right'' vi regions
     else regions)"

definition zone_rules :: "zone_rule list" where
  "zone_rules =
    [rule_full_face, rule_forehead, rule_brows, rule_eyes, rule_under_eye,
     rule_nose_bridge, rule_nose_tip, rule_nostrils, rule_cheeks, rule_nasolabial,
     rule_lips, rule_chin, rule_jaw, rule_temples, rule_ears]"

text \<open>The normalised coordinates of vertex \<open>vi\<close> and the front-face gate, as the loop body
  computes them.\<close>

definition pos_yn :: "vertex list \<Rightarrow> nat \<Rightarrow> real option" where
  "pos_yn v_template vi =
    (let y = map (\<lambda>v. fst (snd v)) v_template;
         y_min = arr_min y; y_max = arr_max y;
         y_range = y_max - y_min
     in fdiv (y ! vi - y_min) y_range)"

definition pos_xn :: "vertex list \<Rightarrow> nat \<Rightarrow> real option" where
  "pos_xn v_template vi =
    (let x = map fst v_template;
         x_min = arr_min x; x_max = arr_max x;
         x_range = x_max - x_min;
         midline = (x_min + x_max) / 2
     in fdiv (x ! vi - midline) (x_range / 2))"

definition pos_is_front :: "vertex list \<Rightarrow> nat \<Rightarrow> bool" where
  "pos_is_front v_template vi =
    (let z = map (\<lambda>v. snd (snd v)) v_template;
         z_min = arr_min z; z_max = arr_max z;
         z_mid = (z_min + z_max) / 2
     in z ! vi > z_mid)"

text \<open>The body of \<^verbatim>\<open>for vi in range(n_verts)\<close>: the neck test comes first and ends the
  iteration, then the front-face gate, then the zone rules.\<close>

definition classify_vertex :: "vertex list \<Rightarrow> nat \<Rightarrow> regions \<Rightarrow> regions" where
  "classify_vertex v_template vi regions =
    (let yn = pos_yn v_template vi;
         xn = pos_xn v_template vi;
         is_front = pos_is_front v_template vi
     in if flt yn 0.10 then append_zone ''neck'' (int vi) regions
        else if \<not> is_front then regions
        else fold (\<lambda>rule. rule yn xn (int vi)) zone_rules regions)"

text \<open>\<^verbatim>\<open>_position_only_regions\<close>; \<^verbatim>\<open>y.min()\<close> raises on an empty vertex array.\<close>

definition position_only_regions :: "vertex list \<Rightarrow> error + regions" where
  "position_only_regions v_template =
    (if v_template = [] then Inl ValueError
     else Inr (fold (classify_vertex v_template) [0..<length v_template] init_regions))"

subsection \<open>The position-only classifier over any floating-point arithmetic\<close>

text \<open>The classifier above computes in exact real arithmetic, which rounds nowhere and cannot
  overflow. Here the same function is given with the arithmetic of the coordinates as a
  parameter: the literals, the operations the source uses, \<^verbatim>\<open>abs\<close>, the comparison
  \<open><\<close> (the source's \<open>a > b\<close> is \<open>b < a\<close>) and the array minimum and maximum. IEEE
  binary64 with its rounding, infinities and \<^verbatim>\<open>nan\<close> is one such arithmetic, the exact one
  with \<open>None\<close> for \<^verbatim>\<open>nan\<close> is another.\<close>

record 'f float_ops =
  f_lit :: "real \<Rightarrow> 'f"
  f_add :: "'f \<Rightarrow> 'f \<Rightarrow> 'f"
  f_sub :: "'f \<Rightarrow> 'f \<Rightarrow> 'f"
  f_div :: "'f \<Rightarrow> 'f \<Rightarrow> 'f"
  f_abs :: "'f \<Rightarrow> 'f"
  f_lt :: "'f \<Rightarrow> 'f \<Rightarrow> bool"
  f_min :: "'f list \<Rightarrow> 'f"
  f_max :: "'f list \<Rightarrow> 'f"

text \<open>\<^verbatim>\<open>a < c\<close> and \<^verbatim>\<open>a > c\<close> for a literal \<open>c\<close>.\<close>

definition lt_lit :: "'f float_ops \<Rightarrow> 'f \<Rightarrow> real \<Rightarrow> bool" where
  "lt_lit ops a c = f_lt ops a (f_lit ops c)"

definition gt_lit :: "'f float_ops \<Rightarrow> 'f \<Rightarrow> real \<Rightarrow> bool" where
  "gt_lit ops a c = f_lt ops (f_lit ops c) a"

type_synonym 'f fp_rule = "'f float_ops \<Rightarrow> 'f \<Rightarrow> 'f \<Rightarrow> int \<Rightarrow> regions \<Rightarrow> regions"

definition fp_rule_full_face :: "'f fp_rule" where
  "fp_rule_full_face ops yn xn vi regions =
    (if gt_lit ops yn 0.10 then append_zone ''full_face'' vi regions else regions)"

definition fp_rule_forehead :: "'f fp_rule" where
  "fp_rule_forehead ops yn xn vi regions =
    (if gt_lit ops yn 0.75 then
       let regions = append_zone ''forehead'' vi regions
       in if gt_lit ops xn 0.15 then append_zone ''forehead_left'' vi regions
          else if lt_lit ops xn (- 0.15) then append_zone ''forehead_right'' vi regions
          else append_zone ''forehead_center'' vi regions
     else regions)"

definition fp_rule_brows :: "'f fp_rule" where
  "fp_rule_brows ops yn xn vi regions =
    (if gt_lit ops yn 0.65 \<and> lt_lit ops yn 0.75 then
       let regions =
             (if gt_lit ops xn 0.10 then
                let regions = append_zone ''brow_left'' vi regions
                in if lt_lit ops xn 0.30 then append_zone ''brow_inner_left'' vi regions else regions
              else regions)
       in if lt_lit ops xn (- 0.10) then
            let regions = append_zone ''brow_right'' vi regions
            in if gt_lit ops xn (- 0.30) then append_zone ''brow_inner_right'' vi regions else regions
          else regions
     else regions)"

definition fp_rule_eyes :: "'f fp_rule" where
  "fp_rule_eyes ops yn xn vi regions =
    (if gt_lit ops yn 0.55 \<and> lt_lit ops yn 0.68 then
       let regions =
             (if gt_lit ops xn 0.15 \<and> lt_lit ops xn 0.55 then
                let regions =
                      (if gt_lit ops yn 0.62 then append_zone ''eye_left_upper'' vi regions
                       else append_zone ''eye_left_lower'' vi regions);
                    regions =
                      (if lt_lit ops xn 0.25 then append_zone ''eye_left_corner_inner'' vi regions
                       else regions)
                in if gt_lit ops xn 0.45 then append_zone ''eye_left_corner_outer'' vi regions
                   else regions
              else regions)
       in if gt_lit ops xn (- 0.55) \<and> lt_lit ops xn (- 0.15) then
            let regions =
                  (if gt_lit ops yn 0.62 then append_zone ''eye_right_upper'' vi regions
                   else append_zone ''eye_right_lower'' vi regions);
                regions =
                  (if gt_lit ops xn (- 0.25) then append_zone ''eye_right_corner_inner'' vi regions
                   else regions)
            in if lt_lit ops xn (- 0.45) then append_zone ''eye_right_corner_outer'' vi regions
               else regions
          else regions
     else regions)"

definition fp_rule_under_eye :: "'f fp_rule" where
  "fp_rule_under_eye ops yn xn vi regions =
    (if gt_lit ops yn 0.48 \<and> lt_lit ops yn 0.58 then
       let regions =
             (if gt_lit ops xn 0.10 \<and> lt_lit ops xn 0.50 then
                let regions = append_zone ''under_eye_left'' vi regions
                in if lt_lit ops xn 0.30 then append_zone ''tear_trough_left'' vi regions else regions
              else regions)
       in if gt_lit ops xn (- 0.50) \<and> lt_lit ops xn (- 0.10) then
            let regions = append_zone ''under_eye_right'' vi regions
            in if gt_lit ops xn (- 0.30) then append_zone ''tear_trough_right'' vi regions else regions
          else regions
     else regions)"

definition fp_rule_nose_bridge :: "'f fp_rule" where
  "fp_rule_nose_bridge ops yn xn vi regions =
    (if gt_lit ops yn 0.35 \<and> lt_lit ops yn 0.60 \<and> lt_lit ops (f_abs ops xn) 0.15 then
       let regions = append_zone ''nose_bridge'' vi regions;
           regions = append_zone ''nose_dorsum'' vi regions
       in if gt_lit ops yn 0.48 then append_zone ''nose_bridge_upper'' vi regions
          else append_zone ''nose_bridge_lower'' vi regions
     else regions)"

definition fp_rule_nose_tip :: "'f fp_rule" where
  "fp_rule_nose_tip ops yn xn vi regions =
    (if gt_lit ops yn 0.30 \<and> lt_lit ops yn 0.40 \<and> lt_lit ops (f_abs ops xn) 0.15 then
       let regions = append_zone ''nose_tip'' vi regions
       in if gt_lit ops xn 0 then append_zone ''nose_tip_left'' vi regions
          else append_zone ''nose_tip_right'' vi regions
     else regions)"

definition fp_rule_nostrils :: "'f fp_rule" where
  "fp_rule_nostrils ops yn xn vi regions =
    (if gt_lit ops yn 0.28 \<and> lt_lit ops yn 0.38 then
       let regions =
             (if gt_lit ops xn 0.08 \<and> lt_lit ops xn 0.22 then append_zone ''nostril_left'' vi regions
              else regions)
       in if gt_lit ops xn (- 0.22) \<and> lt_lit ops xn (- 0.08) then append_zone ''nostril_right'' vi regions
          else regions
     else regions)"

definition fp_rule_cheeks :: "'f fp_rule" where
  "fp_rule_cheeks ops yn xn vi regions =
    (if gt_lit ops yn 0.30 \<and> lt_lit ops yn 0.55 \<and> gt_lit ops (f_abs ops xn) 0.25 then
       if gt_lit ops xn 0 then
         let regions = append_zone ''cheek_left'' vi regions
         in if gt_lit ops yn 0.42 then append_zone ''cheekbone_left'' vi regions
            else append_zone ''cheek_hollow_left'' vi regions
       else
         let regions = append_zone ''cheek_right'' vi regions
         in if gt_lit ops yn 0.42 then append_zone ''cheekbone_right'' vi regions
            else append_zone ''cheek_hollow_right'' vi regions
     else regions)"

definition fp_rule_nasolabial :: "'f fp_rule" where
  "fp_rule_nasolabial ops yn xn vi regions =
    (if gt_lit ops yn 0.28 \<and> lt_lit ops yn 0.48 \<and> gt_lit ops (f_abs ops xn) 0.15 \<and> lt_lit ops (f_abs ops xn) 0.28 then
       if gt_lit ops xn 0 then append_zone ''nasolabial_left'' vi regions
       else append_zone ''nasolabial_right'' vi regions
     else regions)"

definition fp_rule_lips :: "'f fp_rule" where
  "fp_rule_lips ops yn xn vi regions =
    (if gt_lit ops yn 0.22 \<and> lt_lit ops yn 0.32 \<and> lt_lit ops (f_abs ops xn) 0.25 then
       let regions =
             (if gt_lit ops yn 0.27 then
                let regions = append_zone ''lip_upper'' vi regions
                in if gt_lit ops xn 0.06 then append_zone ''lip_upper_left'' vi regions
                   else if lt_lit ops xn (- 0.06) then append_zone ''lip_upper_right'' vi regions
                   else append_zone ''lip_upper_center'' vi regions
              else
                let regions = append_zone ''lip_lower'' vi regions
                in if gt_lit ops xn 0.06 then append_zone ''lip_lower_left'' vi regions
                   else if lt_lit ops xn (- 0.06) then append_zone ''lip_lower_right'' vi regions
                   else append_zone ''lip_lower_center'' vi regions)
       in if lt_lit ops (f_abs ops (f_sub ops yn (f_lit ops 0.27))) 0.03 \<and> gt_lit ops (f_abs ops xn) 0.18 then
            if gt_lit ops xn 0 then append_zone ''lip_corner_left'' vi regions
            else append_zone ''lip_corner_right'' vi regions
          else regions
     else regions)"

definition fp_rule_chin :: "'f fp_rule" where
  "fp_rule_chin ops yn xn vi regions =
    (if gt_lit ops yn 0.12 \<and> lt_lit ops yn 0.24 \<and> lt_lit ops (f_abs ops xn) 0.30 then
       let regions = append_zone ''chin'' vi regions
       in if lt_lit ops (f_abs ops xn) 0.10 then append_zone ''chin_center'' vi regions
          else if gt_lit ops xn 0 then append_zone ''chin_left'' vi regions
          else append_zone ''chin_right'' vi regions
     else regions)"

definition fp_rule_jaw :: "'f fp_rule" where
  "fp_rule_jaw ops yn xn vi regions =
    (if gt_lit ops yn 0.10 \<and> lt_lit ops yn 0.30 \<and> gt_lit ops (f_abs ops xn) 0.25 then
       if gt_lit ops xn 0 then
         let regions = append_zone ''jaw_left'' vi regions
         in if lt_lit ops yn 0.18 then append_zone ''jawline_left'' vi regions else regions
       else
         let regions = append_zone ''jaw_right'' vi regions
         in if lt_lit ops yn 0.18 then append_zone ''jawline_right'' vi regions else regions
     else regions)"

definition fp_rule_temples :: "'f fp_rule" where
  "fp_rule_temples ops yn xn vi regions =
    (if gt_lit ops yn 0.60 \<and> lt_lit ops yn 0.78 \<and> gt_lit ops (f_abs ops xn) 0.50 then
       if gt_lit ops xn 0 then append_zone ''temple_left'' vi regions
       else append_zone ''temple_right'' vi regions
     else regions)"

definition fp_rule_ears :: "'f fp_rule" where
  "fp_rule_ears ops yn xn vi regions =
    (if gt_lit ops yn 0.40 \<and> lt_lit ops yn 0.70 \<and> gt_lit ops (f_abs ops xn) 0.80 then
       if gt_lit ops xn 0 then append_zone ''ear_left'' vi regions
       else append_zone ''ear_right'' vi regions
     else regions)"

definition fp_zone_rules :: "'f fp_rule list" where
  "fp_zone_rules =
    [fp_rule_full_face, fp_rule_forehead, fp_rule_brows, fp_rule_eyes, fp_rule_under_eye,
     fp_rule_nose_bridge, fp_rule_nose_tip, fp_rule_nostrils, fp_rule_cheeks,
     fp_rule_nasolabial, fp_rule_lips, fp_rule_chin, fp_rule_jaw, fp_rule_temples,
     fp_rule_ears]"

text \<open>The loop body: the bounding box, the normalised coordinates of vertex \<open>vi\<close>, the neck
  test, the front-face gate, the zone rules.\<close>

definition fp_classify_vertex ::
  "'f float_ops \<Rightarrow> ('f \<times> 'f \<times> 'f) list \<Rightarrow> nat \<Rightarrow> regions \<Rightarrow> regions" where
  "fp_classify_vertex ops v_template vi regions =
    (let x = map fst v_template;
         y = map (\<lambda>v. fst (snd v)) v_template;
         z = map (\<lambda>v. snd (snd v)) v_template;
         y_min = f_min ops y; y_max = f_max ops y;
         x_min = f_min ops x; x_max = f_max ops x;
         z_min = f_min ops z; z_max = f_max ops z;
         y_range = f_sub ops y_max y_min;
         x_range = f_sub ops x_max x_min;
         midline = f_div ops (f_add ops x_min x_max) (f_lit ops 2);
         z_mid = f_div ops (f_add ops z_min z_max) (f_lit ops 2);
         vx = x ! vi; vy = y ! vi; vz = z ! vi;
         yn = f_div ops (f_sub ops vy y_min) y_range;
         xn = f_div ops (f_sub ops vx midline) (f_div ops x_range (f_lit ops 2));
         is_front = f_lt ops z_mid vz
     in if lt_lit ops yn 0.10 then append_zone ''neck'' (int vi) regions
        else if \<not> is_front then regions
        else fold (\<lambda>rule. rule ops yn xn (int vi)) fp_zone_rules regions)"

definition fp_position_only_regions ::
  "'f float_ops \<Rightarrow> ('f \<times> 'f \<times> 'f) list \<Rightarrow> error + regions" where
  "fp_position_only_regions ops v_template =
    (if v_template = [] then Inl ValueError
     else Inr (fold (fp_classify_vertex ops v_template) [0..<length v_template] init_regions))"

text \<open>The exact arithmetic with \<open>None\<close> for \<^verbatim>\<open>nan\<close>, as an instance.\<close>

definition exact_ops :: "real option float_ops" where
  "exact_ops =
    \<lparr> f_lit = Some,
      f_add = (\<lambda>a b. case (a, b) of (Some p, Some q) \<Rightarrow> Some (p + q) | _ \<Rightarrow> None),
      f_sub = (\<lambda>a b. case (a, b) of (Some p, Some q) \<Rightarrow> Some (p - q) | _ \<Rightarrow> None),
      f_div = (\<lambda>a b. case (a, b) of (Some p, Some q) \<Rightarrow> fdiv p q | _ \<Rightarrow> None),
      f_abs = fabs,
      f_lt = (\<lambda>a b. case (a, b) of (Some p, Some q) \<Rightarrow> p < q | _ \<Rightarrow> False),
      f_min = (\<lambda>a. if None \<in> set a then None else Some (arr_min (map the a))),
      f_max = (\<lambda>a. if None \<in> set a then None else Some (arr_max (map the a))) \<rparr>"

subsection \<open>Notions used in the proofs\<close>

text \<open>A zone map has the right keys when its domain is the set of the 61 zone names.\<close>

definition keys_ok :: "regions \<Rightarrow> bool" where
  "keys_ok r \<longleftrightarrow> dom r = set ALL_CLINICAL_ZONES"

text \<open>\<open>full_face\<close> covers every zone other than the neck and the ears.\<close>

definition face_covered :: "regions \<Rightarrow> bool" where
  "face_covered r \<longleftrightarrow>
    (\<forall>k l. r k = Some l \<longrightarrow> k \<notin> {''neck'', ''ear_left'', ''ear_right''} \<longrightarrow>
       (\<exists>ff. r ''full_face'' = Some ff \<and> set l \<subseteq> set ff))"

text \<open>Properties of a step of the classifier loop: it only ever adds the index \<open>vi\<close> to a
  zone, it leaves the zone \<open>k\<close> alone, it keeps the key set.\<close>

definition grows :: "int \<Rightarrow> (regions \<Rightarrow> regions) \<Rightarrow> bool" where
  "grows vi f \<longleftrightarrow>
    (\<forall>r k l. r k = Some l \<longrightarrow> (\<exists>l'. f r k = Some l' \<and> set l \<subseteq> set l' \<and> set l' \<subseteq> insert vi (set l)))"

definition keeps :: "string \<Rightarrow> (regions \<Rightarrow> regions) \<Rightarrow> bool" where
  "keeps k f \<longleftrightarrow> (\<forall>r. f r k = r k)"

definition pres :: "(regions \<Rightarrow> regions) \<Rightarrow> bool" where
  "pres f \<longleftrightarrow> (\<forall>r. keys_ok r \<longrightarrow> keys_ok (f r))"


text \<open>The index array the subdivider works with for a mask key: the converted mask, or the
  empty array for an absent key.\<close>

definition region_idx :: "vertex list \<Rightarrow> (string \<times> mask_val) list \<Rightarrow> string \<Rightarrow> int list" where
  "region_idx v_template flame_masks key = fm_get (build_fm (length v_template) flame_masks) key"

text \<open>The mask keys whose index arrays the subdivider uses as an index into the coordinate
  arrays, and all the mask keys it reads.\<close>

definition indexed_keys :: "string list" where
  "indexed_keys =
    [''nose'', ''lips'', ''forehead'', ''left_eye_region'', ''right_eye_region'', ''face'',
     ''scalp'']"

definition recognized_keys :: "string list" where
  "recognized_keys =
    [''nose'', ''lips'', ''forehead'', ''left_eye_region'', ''right_eye_region'', ''face'',
     ''neck'', ''left_ear'', ''right_ear'', ''scalp'', ''left_eyeball'', ''right_eyeball'']"

text \<open>The zone a run returns under a name; \<open>None\<close> when the run raised.\<close>

definition zone_of :: "error + regions \<Rightarrow> string \<Rightarrow> int list option" where
  "zone_of result name = (case result of Inl e \<Rightarrow> None | Inr zm \<Rightarrow> zm name)"




section \<open>Properties of the position-only classifier\<close>

lemmas rule_defs = rule_full_face_def rule_forehead_def rule_brows_def rule_eyes_def
  rule_under_eye_def rule_nose_bridge_def rule_nose_tip_def rule_nostrils_def rule_cheeks_def
  rule_nasolabial_def rule_lips_def rule_chin_def rule_jaw_def rule_temples_def rule_ears_def

lemma grows_id: "grows vi (\<lambda>r. r)"
  by (auto simp: grows_def)

lemma grows_append: "grows vi (append_zone n vi)"
  by (auto simp: grows_def append_zone_def)

lemma grows_comp:
  assumes f: "grows vi f" and g: "grows vi g"
  shows "grows vi (\<lambda>r. g (f r))"
  unfolding grows_def
proof (intro allI impI)
  fix r :: regions and k l
  assume "r k = Some l"
  with f obtain l1 where l1: "f r k = Some l1" "set l \<subseteq> set l1" "set l1 \<subseteq> insert vi (set l)"
    unfolding grows_def by blast
  with g obtain l2 where l2: "g (f r) k = Some l2" "set l1 \<subseteq> set l2" "set l2 \<subseteq> insert vi (set l1)"
    unfolding grows_def by blast
  from l1 l2 show "\<exists>l'. g (f r) k = Some l' \<and> set l \<subseteq> set l' \<and> set l' \<subseteq> insert vi (set l)"
    by auto
qed

lemma grows_let: "grows vi f \<Longrightarrow> grows vi g \<Longrightarrow> grows vi (\<lambda>r. let r' = f r in g r')"
  unfolding Let_def by (rule grows_comp)

lemma grows_if: "grows vi f \<Longrightarrow> grows vi g \<Longrightarrow> grows vi (\<lambda>r. if c then f r else g r)"
  by (simp add: grows_def)

lemmas grows_intros = grows_if grows_let grows_append grows_id


lemma keeps_id: "keeps k (\<lambda>r. r)"
  by (simp add: keeps_def)

lemma keeps_append: "n \<noteq> k \<Longrightarrow> keeps k (append_zone n vi)"
  by (simp add: keeps_def append_zone_def)

lemma keeps_let: "keeps k f \<Longrightarrow> keeps k g \<Longrightarrow> keeps k (\<lambda>r. let r' = f r in g r')"
  by (simp add: keeps_def)

lemma keeps_if: "keeps k f \<Longrightarrow> keeps k g \<Longrightarrow> keeps k (\<lambda>r. if c then f r else g r)"
  by (simp add: keeps_def)

lemmas keeps_intros = keeps_if keeps_let keeps_append keeps_id

lemma keys_ok_upd: "k \<in> set ALL_CLINICAL_ZONES \<Longrightarrow> keys_ok r \<Longrightarrow> keys_ok (r(k \<mapsto> l))"
  by (auto simp: keys_ok_def)

lemma pres_id: "pres (\<lambda>r. r)"
  by (simp add: pres_def)

lemma pres_append: "n \<in> set ALL_CLINICAL_ZONES \<Longrightarrow> pres (append_zone n vi)"
  by (simp add: pres_def append_zone_def keys_ok_upd)

lemma pres_let: "pres f \<Longrightarrow> pres g \<Longrightarrow> pres (\<lambda>r. let r' = f r in g r')"
  by (simp add: pres_def)

lemma pres_if: "pres f \<Longrightarrow> pres g \<Longrightarrow> pres (\<lambda>r. if c then f r else g r)"
  by (simp add: pres_def)

lemmas pres_intros = pres_if pres_let pres_append pres_id

lemma zone_rules_cases:
  assumes "rule \<in> set zone_rules"
    and "P rule_full_face" "P rule_forehead" "P rule_brows" "P rule_eyes" "P rule_under_eye"
    and "P rule_nose_bridge" "P rule_nose_tip" "P rule_nostrils" "P rule_cheeks"
    and "P rule_nasolabial" "P rule_lips" "P rule_chin" "P rule_jaw" "P rule_temples"
    and "P rule_ears"
  shows "P rule"
  using assms unfolding zone_rules_def by auto

lemma grows_rule: "rule \<in> set zone_rules \<Longrightarrow> grows vi (rule yn xn vi)"
  by (erule zone_rules_cases; unfold rule_defs [abs_def]; intro grows_intros)

lemma pres_rule: "rule \<in> set zone_rules \<Longrightarrow> pres (rule yn xn vi)"
  by (erule zone_rules_cases; unfold rule_defs [abs_def]; intro pres_intros;
      simp add: ALL_CLINICAL_ZONES_def)

lemma keeps_neck_rule: "rule \<in> set zone_rules \<Longrightarrow> keeps ''neck'' (rule yn xn vi)"
  by (erule zone_rules_cases; unfold rule_defs [abs_def]; intro keeps_intros; simp)

lemma tl_zone_rules_cases:
  assumes "rule \<in> set (tl zone_rules)"
    and "P rule_forehead" "P rule_brows" "P rule_eyes" "P rule_under_eye"
    and "P rule_nose_bridge" "P rule_nose_tip" "P rule_nostrils" "P rule_cheeks"
    and "P rule_nasolabial" "P rule_lips" "P rule_chin" "P rule_jaw" "P rule_temples"
    and "P rule_ears"
  shows "P rule"
  using assms unfolding zone_rules_def by auto

lemma keeps_full_face_rule:
  "rule \<in> set (tl zone_rules) \<Longrightarrow> keeps ''full_face'' (rule yn xn vi)"
  by (erule tl_zone_rules_cases; unfold rule_defs [abs_def]; intro keeps_intros; simp)

lemma fgt_weaken: "\<not> fgt yn a \<Longrightarrow> a \<le> b \<Longrightarrow> \<not> fgt yn b"
  by (auto simp: fgt_def split: option.splits)

lemma rule_full_face_noop: "\<not> fgt yn 0.10 \<Longrightarrow> rule_full_face yn xn vi r = r"
  by (simp add: rule_full_face_def)

lemma rule_forehead_noop: "\<not> fgt yn 0.10 \<Longrightarrow> rule_forehead yn xn vi r = r"
  by (frule fgt_weaken [where b = "0.75"]) (simp_all add: rule_forehead_def)

lemma rule_brows_noop: "\<not> fgt yn 0.10 \<Longrightarrow> rule_brows yn xn vi r = r"
  by (frule fgt_weaken [where b = "0.65"]) (simp_all add: rule_brows_def)

lemma rule_eyes_noop: "\<not> fgt yn 0.10 \<Longrightarrow> rule_eyes yn xn vi r = r"
  by (frule fgt_weaken [where b = "0.55"]) (simp_all add: rule_eyes_def)

lemma rule_under_eye_noop: "\<not> fgt yn 0.10 \<Longrightarrow> rule_under_eye yn xn vi r = r"
  by (frule fgt_weaken [where b = "0.48"]) (simp_all add: rule_under_eye_def)

lemma rule_nose_bridge_noop: "\<not> fgt yn 0.10 \<Longrightarrow> rule_nose_bridge yn xn vi r = r"
  by (frule fgt_weaken [where b = "0.35"]) (simp_all add: rule_nose_bridge_def)

lemma rule_nose_tip_noop: "\<not> fgt yn 0.10 \<Longrightarrow> rule_nose_tip yn xn vi r = r"
  by (frule fgt_weaken [where b = "0.30"]) (simp_all add: rule_nose_tip_def)

lemma rule_nostrils_noop: "\<not> fgt yn 0.10 \<Longrightarrow> rule_nostrils yn xn vi r = r"
  by (frule fgt_weaken [where b = "0.28"]) (simp_all add: rule_nostrils_def)

lemma rule_cheeks_noop: "\<not> fgt yn 0.10 \<Longrightarrow> rule_cheeks yn xn vi r = r"
  by (frule fgt_weaken [where b = "0.30"]) (simp_all add: rule_cheeks_def)

lemma rule_nasolabial_noop: "\<not> fgt yn 0.10 \<Longrightarrow> rule_nasolabial yn xn vi r = r"
  by (frule fgt_weaken [where b = "0.28"]) (simp_all add: rule_nasolabial_def)

lemma rule_lips_noop: "\<not> fgt yn 0.10 \<Longrightarrow> rule_lips yn xn vi r = r"
  by (frule fgt_weaken [where b = "0.22"]) (simp_all add: rule_lips_def)

lemma rule_chin_noop: "\<not> fgt yn 0.10 \<Longrightarrow> rule_chin yn xn vi r = r"
  by (frule fgt_weaken [where b = "0.12"]) (simp_all add: rule_chin_def)

lemma rule_jaw_noop: "\<not> fgt yn 0.10 \<Longrightarrow> rule_jaw yn xn vi r = r"
  by (simp add: rule_jaw_def)

lemma rule_temples_noop: "\<not> fgt yn 0.10 \<Longrightarrow> rule_temples yn xn vi r = r"
  by (frule fgt_weaken [where b = "0.60"]) (simp_all add: rule_temples_def)

lemma rule_ears_noop: "\<not> fgt yn 0.10 \<Longrightarrow> rule_ears yn xn vi r = r"
  by (frule fgt_weaken [where b = "0.40"]) (simp_all add: rule_ears_def)

lemma rule_noop: "rule \<in> set zone_rules \<Longrightarrow> \<not> fgt yn 0.10 \<Longrightarrow> rule yn xn vi r = r"
  by (erule zone_rules_cases)
     (simp_all add: rule_full_face_noop rule_forehead_noop rule_brows_noop rule_eyes_noop
        rule_under_eye_noop rule_nose_bridge_noop rule_nose_tip_noop rule_nostrils_noop
        rule_cheeks_noop rule_nasolabial_noop rule_lips_noop rule_chin_noop rule_jaw_noop
        rule_temples_noop rule_ears_noop)

lemma fold_rules_noop:
  "set rs \<subseteq> set zone_rules \<Longrightarrow> \<not> fgt yn 0.10 \<Longrightarrow> fold (\<lambda>rule. rule yn xn vi) rs r = r"
  by (induction rs arbitrary: r) (simp_all add: rule_noop)

lemma fold_rules_grows:
  "set rs \<subseteq> set zone_rules \<Longrightarrow> grows vi (\<lambda>r. fold (\<lambda>rule. rule yn xn vi) rs r)"
proof (induction rs)
  case Nil
  show ?case by (simp add: grows_id)
next
  case (Cons a rs)
  then have "grows vi (a yn xn vi)" "grows vi (\<lambda>r. fold (\<lambda>rule. rule yn xn vi) rs r)"
    by (simp_all add: grows_rule)
  then show ?case by (simp add: grows_comp)
qed

lemma fold_rules_pres:
  "set rs \<subseteq> set zone_rules \<Longrightarrow> pres (\<lambda>r. fold (\<lambda>rule. rule yn xn vi) rs r)"
proof (induction rs)
  case Nil
  show ?case by (simp add: pres_id)
next
  case (Cons a rs)
  then have "pres (a yn xn vi)" "pres (\<lambda>r. fold (\<lambda>rule. rule yn xn vi) rs r)"
    by (simp_all add: pres_rule)
  then show ?case by (simp add: pres_def)
qed

lemma fold_rules_keeps_neck:
  "set rs \<subseteq> set zone_rules \<Longrightarrow> keeps ''neck'' (\<lambda>r. fold (\<lambda>rule. rule yn xn vi) rs r)"
proof (induction rs)
  case Nil
  show ?case by (simp add: keeps_id)
next
  case (Cons a rs)
  then have "keeps ''neck'' (a yn xn vi)"
    "keeps ''neck'' (\<lambda>r. fold (\<lambda>rule. rule yn xn vi) rs r)"
    by (simp_all add: keeps_neck_rule)
  then show ?case by (simp add: keeps_def)
qed

lemma fold_rules_keeps_full_face:
  "set rs \<subseteq> set (tl zone_rules) \<Longrightarrow>
    keeps ''full_face'' (\<lambda>r. fold (\<lambda>rule. rule yn xn vi) rs r)"
proof (induction rs)
  case Nil
  show ?case by (simp add: keeps_id)
next
  case (Cons a rs)
  then have "keeps ''full_face'' (a yn xn vi)"
    "keeps ''full_face'' (\<lambda>r. fold (\<lambda>rule. rule yn xn vi) rs r)"
    by (simp_all add: keeps_full_face_rule)
  then show ?case by (simp add: keeps_def)
qed

lemma classify_vertex_grows: "grows (int vi) (classify_vertex v vi)"
  unfolding classify_vertex_def [abs_def] Let_def
  by (intro grows_intros fold_rules_grows subset_refl)

lemma classify_vertex_pres: "pres (classify_vertex v vi)"
  unfolding classify_vertex_def [abs_def] Let_def
  by (intro pres_intros fold_rules_pres subset_refl) (simp add: ALL_CLINICAL_ZONES_def)

lemma classify_vertex_neck:
  "classify_vertex v vi r ''neck'' =
    (if flt (pos_yn v vi) 0.10 then Some (the (r ''neck'') @ [int vi]) else r ''neck'')"
  using fold_rules_keeps_neck [of zone_rules "pos_yn v vi" "pos_xn v vi" "int vi"]
  by (simp add: classify_vertex_def Let_def append_zone_def keeps_def)

lemma classify_vertex_back:
  "k \<noteq> ''neck'' \<Longrightarrow> \<not> pos_is_front v vi \<Longrightarrow> classify_vertex v vi r k = r k"
  by (simp add: classify_vertex_def Let_def append_zone_def)

lemma map_of_const_nil:
  "map_of (map (\<lambda>name. (name, [])) xs) k = (if k \<in> set xs then Some [] else None)"
  by (induction xs) auto

lemma init_regions_apply:
  "init_regions k = (if k \<in> set ALL_CLINICAL_ZONES then Some [] else None)"
  unfolding init_regions_def by (rule map_of_const_nil)

lemma keys_ok_init: "keys_ok init_regions"
  by (auto simp: keys_ok_def init_regions_apply dom_def)

lemma fold_classify_keys_ok:
  "keys_ok r \<Longrightarrow> keys_ok (fold (classify_vertex v) xs r)"
  using classify_vertex_pres by (induction xs arbitrary: r) (auto simp: pres_def)

lemma fold_classify_neck:
  "r ''neck'' = Some l \<Longrightarrow>
    fold (classify_vertex v) xs r ''neck'' =
      Some (l @ map int (filter (\<lambda>vi. flt (pos_yn v vi) 0.10) xs))"
  by (induction xs arbitrary: r l) (simp_all add: classify_vertex_neck)

lemma fold_classify_members:
  "r k = Some l \<Longrightarrow>
    \<exists>l'. fold (classify_vertex v) xs r k = Some l' \<and>
         set l' \<subseteq> set l \<union> int ` {vi \<in> set xs. k = ''neck'' \<or> pos_is_front v vi}"
proof (induction xs arbitrary: r l)
  case Nil
  then show ?case by simp
next
  case (Cons a xs)
  from classify_vertex_grows [of a v] Cons.prems
  obtain l1 where l1: "classify_vertex v a r k = Some l1" "set l1 \<subseteq> insert (int a) (set l)"
    unfolding grows_def by blast
  have l1': "set l1 \<subseteq> set l \<union> int ` {vi \<in> {a}. k = ''neck'' \<or> pos_is_front v vi}"
  proof (cases "k = ''neck'' \<or> pos_is_front v a")
    case True
    with l1 show ?thesis by auto
  next
    case False
    with classify_vertex_back [of k v a r] Cons.prems l1 show ?thesis by auto
  qed
  from Cons.IH [of "classify_vertex v a r" l1] l1(1) obtain l' where
    "fold (classify_vertex v) xs (classify_vertex v a r) k = Some l'"
    "set l' \<subseteq> set l1 \<union> int ` {vi \<in> set xs. k = ''neck'' \<or> pos_is_front v vi}"
    by blast
  with l1' show ?case by auto
qed

lemma face_covered_init: "face_covered init_regions"
  by (auto simp: face_covered_def init_regions_apply ALL_CLINICAL_ZONES_def split: if_splits)

lemma face_covered_append_neck: "face_covered r \<Longrightarrow> face_covered (append_zone ''neck'' vi r)"
  by (auto simp: face_covered_def append_zone_def)

lemma face_covered_append_full_face:
  "face_covered r \<Longrightarrow> face_covered (append_zone ''full_face'' vi r)"
  by (fastforce simp: face_covered_def append_zone_def)

lemma face_covered_rules:
  assumes ok: "keys_ok r" and cov: "face_covered r"
    and ff: "r ''full_face'' = Some ffl" "vi \<in> set ffl"
    and g: "grows vi f" and kp: "keeps ''full_face'' f" and p: "pres f"
  shows "face_covered (f r)"
  unfolding face_covered_def
proof (intro allI impI)
  fix k l'
  assume k: "f r k = Some l'" "k \<notin> {''neck'', ''ear_left'', ''ear_right''}"
  from p ok have "keys_ok (f r)" by (simp add: pres_def)
  with k(1) ok have "k \<in> dom r" by (auto simp: keys_ok_def)
  then obtain l where l: "r k = Some l" by auto
  with g k(1) have sub: "set l' \<subseteq> insert vi (set l)" unfolding grows_def by fastforce
  from cov l k(2) ff have "set l \<subseteq> set ffl" by (auto simp: face_covered_def)
  moreover from kp ff have "f r ''full_face'' = Some ffl" by (simp add: keeps_def)
  ultimately show "\<exists>ff. f r ''full_face'' = Some ff \<and> set l' \<subseteq> set ff"
    using sub ff(2) by auto
qed

lemma classify_vertex_face_covered:
  assumes ok: "keys_ok r" and cov: "face_covered r"
  shows "face_covered (classify_vertex v vi r)"
proof -
  let ?yn = "pos_yn v vi" and ?xn = "pos_xn v vi"
  let ?F = "\<lambda>rs r. fold (\<lambda>rule. rule ?yn ?xn (int vi)) rs r"
  have rules: "face_covered (?F zone_rules r)"
  proof (cases "fgt ?yn 0.10")
    case False
    then show ?thesis using cov by (simp add: fold_rules_noop)
  next
    case True
    let ?r1 = "append_zone ''full_face'' (int vi) r"
    have split: "?F zone_rules r = ?F (tl zone_rules) ?r1"
      using True by (simp add: zone_rules_def rule_full_face_def)
    have "keys_ok ?r1"
      using ok pres_append [of "''full_face''" "int vi"]
      by (simp add: pres_def ALL_CLINICAL_ZONES_def)
    moreover have "face_covered ?r1" using cov by (rule face_covered_append_full_face)
    moreover have "?r1 ''full_face'' = Some (the (r ''full_face'') @ [int vi])"
      by (simp add: append_zone_def)
    moreover have "int vi \<in> set (the (r ''full_face'') @ [int vi])" by simp
    moreover have "grows (int vi) (?F (tl zone_rules))"
      by (rule fold_rules_grows) (simp add: zone_rules_def)
    moreover have "keeps ''full_face'' (?F (tl zone_rules))"
      by (rule fold_rules_keeps_full_face) simp
    moreover have "pres (?F (tl zone_rules))"
      by (rule fold_rules_pres) (simp add: zone_rules_def)
    ultimately have "face_covered (?F (tl zone_rules) ?r1)" by (rule face_covered_rules)
    with split show ?thesis by simp
  qed
  show ?thesis
    using rules cov by (simp add: classify_vertex_def Let_def face_covered_append_neck)
qed

lemma fold_classify_face_covered:
  "keys_ok r \<Longrightarrow> face_covered r \<Longrightarrow> face_covered (fold (classify_vertex v) xs r)"
proof (induction xs arbitrary: r)
  case Nil
  then show ?case by simp
next
  case (Cons a xs)
  from Cons.prems have "keys_ok (classify_vertex v a r)"
    using classify_vertex_pres by (simp add: pres_def)
  moreover from Cons.prems have "face_covered (classify_vertex v a r)"
    by (simp add: classify_vertex_face_covered)
  ultimately show ?case using Cons.IH by simp
qed


section \<open>Properties of the classifier over any arithmetic\<close>

lemmas fp_rule_defs = fp_rule_full_face_def fp_rule_forehead_def fp_rule_brows_def
  fp_rule_eyes_def fp_rule_under_eye_def fp_rule_nose_bridge_def fp_rule_nose_tip_def
  fp_rule_nostrils_def fp_rule_cheeks_def fp_rule_nasolabial_def fp_rule_lips_def
  fp_rule_chin_def fp_rule_jaw_def fp_rule_temples_def fp_rule_ears_def

lemma fp_zone_rules_cases:
  assumes "rule \<in> set fp_zone_rules"
    and "P fp_rule_full_face" "P fp_rule_forehead" "P fp_rule_brows" "P fp_rule_eyes"
    and "P fp_rule_under_eye" "P fp_rule_nose_bridge" "P fp_rule_nose_tip"
    and "P fp_rule_nostrils" "P fp_rule_cheeks" "P fp_rule_nasolabial" "P fp_rule_lips"
    and "P fp_rule_chin" "P fp_rule_jaw" "P fp_rule_temples" "P fp_rule_ears"
  shows "P rule"
  using assms unfolding fp_zone_rules_def by auto

lemma fp_rule_grows: "rule \<in> set fp_zone_rules \<Longrightarrow> grows vi (rule ops yn xn vi)"
  by (erule fp_zone_rules_cases; unfold fp_rule_defs [abs_def]; intro grows_intros)

lemma fp_rule_pres: "rule \<in> set fp_zone_rules \<Longrightarrow> pres (rule ops yn xn vi)"
  by (erule fp_zone_rules_cases; unfold fp_rule_defs [abs_def]; intro pres_intros;
      simp add: ALL_CLINICAL_ZONES_def)

lemma fp_rule_keeps_neck: "rule \<in> set fp_zone_rules \<Longrightarrow> keeps ''neck'' (rule ops yn xn vi)"
  by (erule fp_zone_rules_cases; unfold fp_rule_defs [abs_def]; intro keeps_intros; simp)

lemma fp_fold_rules_grows:
  "set rs \<subseteq> set fp_zone_rules \<Longrightarrow> grows vi (\<lambda>r. fold (\<lambda>rule. rule ops yn xn vi) rs r)"
proof (induction rs)
  case Nil
  show ?case by (simp add: grows_id)
next
  case (Cons a rs)
  then have "grows vi (a ops yn xn vi)" "grows vi (\<lambda>r. fold (\<lambda>rule. rule ops yn xn vi) rs r)"
    by (simp_all add: fp_rule_grows)
  then show ?case by (simp add: grows_comp)
qed

lemma fp_fold_rules_pres:
  "set rs \<subseteq> set fp_zone_rules \<Longrightarrow> pres (\<lambda>r. fold (\<lambda>rule. rule ops yn xn vi) rs r)"
proof (induction rs)
  case Nil
  show ?case by (simp add: pres_id)
next
  case (Cons a rs)
  then have "pres (a ops yn xn vi)" "pres (\<lambda>r. fold (\<lambda>rule. rule ops yn xn vi) rs r)"
    by (simp_all add: fp_rule_pres)
  then show ?case by (simp add: pres_def)
qed

lemma fp_fold_rules_keeps_neck:
  "set rs \<subseteq> set fp_zone_rules \<Longrightarrow>
    keeps ''neck'' (\<lambda>r. fold (\<lambda>rule. rule ops yn xn vi) rs r)"
proof (induction rs)
  case Nil
  show ?case by (simp add: keeps_id)
next
  case (Cons a rs)
  then have "keeps ''neck'' (a ops yn xn vi)"
    "keeps ''neck'' (\<lambda>r. fold (\<lambda>rule. rule ops yn xn vi) rs r)"
    by (simp_all add: fp_rule_keeps_neck)
  then show ?case by (simp add: keeps_def)
qed

lemma fp_classify_vertex_grows: "grows (int vi) (fp_classify_vertex ops v vi)"
  unfolding fp_classify_vertex_def [abs_def] Let_def
  by (intro grows_intros fp_fold_rules_grows subset_refl)

lemma fp_classify_vertex_pres: "pres (fp_classify_vertex ops v vi)"
  unfolding fp_classify_vertex_def [abs_def] Let_def
  by (intro pres_intros fp_fold_rules_pres subset_refl) (simp add: ALL_CLINICAL_ZONES_def)

text \<open>The two tests of the loop body, written out on the raw coordinates.\<close>

lemma fp_classify_vertex_neck:
  "fp_classify_vertex ops v vi r ''neck'' =
    (if f_lt ops
          (f_div ops
             (f_sub ops (map (\<lambda>v. fst (snd v)) v ! vi) (f_min ops (map (\<lambda>v. fst (snd v)) v)))
             (f_sub ops (f_max ops (map (\<lambda>v. fst (snd v)) v))
                (f_min ops (map (\<lambda>v. fst (snd v)) v))))
          (f_lit ops 0.10)
     then Some (the (r ''neck'') @ [int vi]) else r ''neck'')"
proof -
  have "keeps ''neck'' (\<lambda>r. fold (\<lambda>rule. rule ops yn xn (int vi)) fp_zone_rules r)" for yn xn
    by (rule fp_fold_rules_keeps_neck) simp
  then show ?thesis
    by (simp add: fp_classify_vertex_def Let_def append_zone_def keeps_def lt_lit_def)
qed

lemma fp_classify_vertex_back:
  "k \<noteq> ''neck'' \<Longrightarrow>
   \<not> f_lt ops
       (f_div ops
          (f_add ops (f_min ops (map (\<lambda>v. snd (snd v)) v)) (f_max ops (map (\<lambda>v. snd (snd v)) v)))
          (f_lit ops 2))
       (map (\<lambda>v. snd (snd v)) v ! vi) \<Longrightarrow>
   fp_classify_vertex ops v vi r k = r k"
  by (simp add: fp_classify_vertex_def Let_def append_zone_def)

lemma fp_fold_classify_keys_ok:
  "keys_ok r \<Longrightarrow> keys_ok (fold (fp_classify_vertex ops v) xs r)"
  using fp_classify_vertex_pres [of ops v] by (induction xs arbitrary: r) (auto simp: pres_def)

lemma fp_fold_classify_neck:
  "r ''neck'' = Some l \<Longrightarrow>
    fold (fp_classify_vertex ops v) xs r ''neck'' =
      Some (l @ map int (filter (\<lambda>vi.
        f_lt ops
          (f_div ops
             (f_sub ops (map (\<lambda>v. fst (snd v)) v ! vi) (f_min ops (map (\<lambda>v. fst (snd v)) v)))
             (f_sub ops (f_max ops (map (\<lambda>v. fst (snd v)) v))
                (f_min ops (map (\<lambda>v. fst (snd v)) v))))
          (f_lit ops 0.10)) xs))"
  by (induction xs arbitrary: r l) (simp_all add: fp_classify_vertex_neck)

lemma fp_fold_classify_members:
  "r k = Some l \<Longrightarrow>
    \<exists>l'. fold (fp_classify_vertex ops v) xs r k = Some l' \<and>
         set l' \<subseteq> set l \<union> int ` {vi \<in> set xs. k = ''neck'' \<or>
           f_lt ops
             (f_div ops
                (f_add ops (f_min ops (map (\<lambda>v. snd (snd v)) v))
                   (f_max ops (map (\<lambda>v. snd (snd v)) v)))
                (f_lit ops 2))
             (map (\<lambda>v. snd (snd v)) v ! vi)}"
proof (induction xs arbitrary: r l)
  case Nil
  then show ?case by simp
next
  case (Cons a xs)
  let ?front = "\<lambda>vi. f_lt ops
             (f_div ops
                (f_add ops (f_min ops (map (\<lambda>v. snd (snd v)) v))
                   (f_max ops (map (\<lambda>v. snd (snd v)) v)))
                (f_lit ops 2))
             (map (\<lambda>v. snd (snd v)) v ! vi)"
  from fp_classify_vertex_grows [of a ops v] Cons.prems
  obtain l1 where l1: "fp_classify_vertex ops v a r k = Some l1"
    "set l1 \<subseteq> insert (int a) (set l)"
    unfolding grows_def by blast
  have l1': "set l1 \<subseteq> set l \<union> int ` {vi \<in> {a}. k = ''neck'' \<or> ?front vi}"
  proof (cases "k = ''neck'' \<or> ?front a")
    case True
    with l1 show ?thesis by auto
  next
    case False
    with fp_classify_vertex_back [of k ops v a r] Cons.prems l1 show ?thesis by auto
  qed
  from Cons.IH [of "fp_classify_vertex ops v a r" l1] l1(1) obtain l' where
    "fold (fp_classify_vertex ops v) xs (fp_classify_vertex ops v a r) k = Some l'"
    "set l' \<subseteq> set l1 \<union> int ` {vi \<in> set xs. k = ''neck'' \<or> ?front vi}"
    by blast
  with l1' show ?case by auto
qed

lemma exact_three_vertex_run:
  "fp_position_only_regions exact_ops
      [(Some 0, Some 0, Some 0), (Some 0, Some 1, Some 1), (Some 0, Some 1, Some 0)] =
    Inr (init_regions(''neck'' \<mapsto> [0], ''full_face'' \<mapsto> [1], ''forehead'' \<mapsto> [1],
           ''forehead_center'' \<mapsto> [1]))"
  by (simp add: fp_position_only_regions_def fp_classify_vertex_def exact_ops_def lt_lit_def
      gt_lit_def fp_zone_rules_def fp_rule_defs arr_min_def arr_max_def fdiv_def fabs_def
      Let_def append_zone_def init_regions_apply ALL_CLINICAL_ZONES_def upt_rec)

section \<open>Properties of the sections of the subdivider\<close>

lemma zone_names:
  "''full_face'' \<in> set ALL_CLINICAL_ZONES"
  "''forehead'' \<in> set ALL_CLINICAL_ZONES"
  "''forehead_left'' \<in> set ALL_CLINICAL_ZONES"
  "''forehead_right'' \<in> set ALL_CLINICAL_ZONES"
  "''forehead_center'' \<in> set ALL_CLINICAL_ZONES"
  "''brow_left'' \<in> set ALL_CLINICAL_ZONES"
  "''brow_right'' \<in> set ALL_CLINICAL_ZONES"
  "''brow_inner_left'' \<in> set ALL_CLINICAL_ZONES"
  "''brow_inner_right'' \<in> set ALL_CLINICAL_ZONES"
  "''eye_left_upper'' \<in> set ALL_CLINICAL_ZONES"
  "''eye_left_lower'' \<in> set ALL_CLINICAL_ZONES"
  "''eye_right_upper'' \<in> set ALL_CLINICAL_ZONES"
  "''eye_right_lower'' \<in> set ALL_CLINICAL_ZONES"
  "''eye_left_corner_inner'' \<in> set ALL_CLINICAL_ZONES"
  "''eye_left_corner_outer'' \<in> set ALL_CLINICAL_ZONES"
  "''eye_right_corner_inner'' \<in> set ALL_CLINICAL_ZONES"
  "''eye_right_corner_outer'' \<in> set ALL_CLINICAL_ZONES"
  "''under_eye_left'' \<in> set ALL_CLINICAL_ZONES"
  "''under_eye_right'' \<in> set ALL_CLINICAL_ZONES"
  "''tear_trough_left'' \<in> set ALL_CLINICAL_ZONES"
  "''tear_trough_right'' \<in> set ALL_CLINICAL_ZONES"
  "''nose_bridge'' \<in> set ALL_CLINICAL_ZONES"
  "''nose_bridge_upper'' \<in> set ALL_CLINICAL_ZONES"
  "''nose_bridge_lower'' \<in> set ALL_CLINICAL_ZONES"
  "''nose_tip'' \<in> set ALL_CLINICAL_ZONES"
  "''nose_tip_left'' \<in> set ALL_CLINICAL_ZONES"
  "''nose_tip_right'' \<in> set ALL_CLINICAL_ZONES"
  "''nostril_left'' \<in> set ALL_CLINICAL_ZONES"
  "''nostril_right'' \<in> set ALL_CLINICAL_ZONES"
  "''nose_dorsum'' \<in> set ALL_CLINICAL_ZONES"
  "''cheek_left'' \<in> set ALL_CLINICAL_ZONES"
  "''cheek_right'' \<in> set ALL_CLINICAL_ZONES"
  "''cheekbone_left'' \<in> set ALL_CLINICAL_ZONES"
  "''cheekbone_right'' \<in> set ALL_CLINICAL_ZONES"
  "''cheek_hollow_left'' \<in> set ALL_CLINICAL_ZONES"
  "''cheek_hollow_right'' \<in> set ALL_CLINICAL_ZONES"
  "''nasolabial_left'' \<in> set ALL_CLINICAL_ZONES"
  "''nasolabial_right'' \<in> set ALL_CLINICAL_ZONES"
  "''lip_upper'' \<in> set ALL_CLINICAL_ZONES"
  "''lip_upper_left'' \<in> set ALL_CLINICAL_ZONES"
  "''lip_upper_right'' \<in> set ALL_CLINICAL_ZONES"
  "''lip_upper_center'' \<in> set ALL_CLINICAL_ZONES"
  "''lip_lower'' \<in> set ALL_CLINICAL_ZONES"
  "''lip_lower_left'' \<in> set ALL_CLINICAL_ZONES"
  "''lip_lower_right'' \<in> set ALL_CLINICAL_ZONES"
  "''lip_lower_center'' \<in> set ALL_CLINICAL_ZONES"
  "''lip_corner_left'' \<in> set ALL_CLINICAL_ZONES"
  "''lip_corner_right'' \<in> set ALL_CLINICAL_ZONES"
  "''chin'' \<in> set ALL_CLINICAL_ZONES"
  "''chin_center'' \<in> set ALL_CLINICAL_ZONES"
  "''chin_left'' \<in> set ALL_CLINICAL_ZONES"
  "''chin_right'' \<in> set ALL_CLINICAL_ZONES"
  "''jaw_left'' \<in> set ALL_CLINICAL_ZONES"
  "''jaw_right'' \<in> set ALL_CLINICAL_ZONES"
  "''jawline_left'' \<in> set ALL_CLINICAL_ZONES"
  "''jawline_right'' \<in> set ALL_CLINICAL_ZONES"
  "''temple_left'' \<in> set ALL_CLINICAL_ZONES"
  "''temple_right'' \<in> set ALL_CLINICAL_ZONES"
  "''ear_left'' \<in> set ALL_CLINICAL_ZONES"
  "''ear_right'' \<in> set ALL_CLINICAL_ZONES"
  "''neck'' \<in> set ALL_CLINICAL_ZONES"
  by (simp_all add: ALL_CLINICAL_ZONES_def)

lemma keys_ok_if: "keys_ok a \<Longrightarrow> keys_ok b \<Longrightarrow> keys_ok (if c then a else b)"
  by simp

lemma keys_ok_let_regions:
  "keys_ok e \<Longrightarrow> (\<And>v. keys_ok v \<Longrightarrow> keys_ok (f v)) \<Longrightarrow> keys_ok (Let e f)"
  by simp

lemma keys_ok_let: "(\<And>v. keys_ok (f v)) \<Longrightarrow> keys_ok (Let e f)"
  by simp

lemma keys_ok_prod: "(\<And>a b. keys_ok (f a b)) \<Longrightarrow> keys_ok (case p of (a, b) \<Rightarrow> f a b)"
  by (cases p) simp

lemmas keys_ok_intros =
  keys_ok_if keys_ok_upd keys_ok_let_regions keys_ok_prod
  keys_ok_let [where ?'a = real] keys_ok_let [where ?'a = "int list"]
  keys_ok_let [where ?'a = "real list"] keys_ok_let [where ?'a = "int \<Rightarrow> real"]
  keys_ok_let [where ?'a = "int list \<times> int list"]








lemma forehead_thirds_step_pres: "pres (forehead_thirds_step x lo hi vi)"
  unfolding forehead_thirds_step_def [abs_def] Let_def
  by (intro pres_intros zone_names)

lemma fold_forehead_thirds_keys_ok:
  "keys_ok r \<Longrightarrow> keys_ok (fold (forehead_thirds_step x lo hi) idx r)"
  using forehead_thirds_step_pres by (induction idx arbitrary: r) (auto simp: pres_def)


lemma forehead_zones_keys_ok:
  "keys_ok r \<Longrightarrow> keys_ok (forehead_zones x y midline_x forehead_idx r)"
  unfolding forehead_zones_def
  by (intro keys_ok_intros zone_names fold_forehead_thirds_keys_ok | assumption)+

lemma face_remainder_zones_keys_ok:
  "keys_ok r \<Longrightarrow> keys_ok (face_remainder_zones x y m nose lips fr r)"
  unfolding face_remainder_zones_def
  by (intro keys_ok_intros zone_names | assumption)+


lemma forehead_section_keys_ok:
  "forehead_section x y m idx r = Inr r' \<Longrightarrow> keys_ok r \<Longrightarrow> keys_ok r'"
  by (auto simp: forehead_section_def forehead_zones_keys_ok split: if_splits)


lemma eye_side_zones_keys_ok:
  assumes "keys_ok r"
    and "n1 \<in> set ALL_CLINICAL_ZONES" "n2 \<in> set ALL_CLINICAL_ZONES"
    and "n3 \<in> set ALL_CLINICAL_ZONES" "n4 \<in> set ALL_CLINICAL_ZONES"
    and "n5 \<in> set ALL_CLINICAL_ZONES" "n6 \<in> set ALL_CLINICAL_ZONES"
  shows "keys_ok (eye_side_zones x y side eye_idx skin n1 n2 n3 n4 n5 n6 r)"
  unfolding eye_side_zones_def
  by (intro keys_ok_intros assms | assumption)+











lemma nose_section_keys_ok: "keys_ok r \<Longrightarrow> keys_ok (nose_section x y m ny idx r)"
  unfolding nose_section_def
  by (intro keys_ok_intros zone_names | assumption)+


lemma lips_section_keys_ok: "keys_ok r \<Longrightarrow> keys_ok (lips_section x y idx r)"
  unfolding lips_section_def
  by (intro keys_ok_intros zone_names | assumption)+



lemma face_remainder_section_keys_ok:
  "face_remainder_section x y m nose lips fr r = Inr r' \<Longrightarrow> keys_ok r \<Longrightarrow> keys_ok r'"
  by (auto simp: face_remainder_section_def face_remainder_zones_keys_ok split: if_splits)


lemma ears_neck_section_keys_ok: "keys_ok r \<Longrightarrow> keys_ok (ears_neck_section le re n r)"
  unfolding ears_neck_section_def
  by (intro keys_ok_intros zone_names | assumption)+

lemma ears_neck_section_apply:
  "ears_neck_section le re n r k =
    (if k = ''neck'' then Some (sort n)
     else if k = ''ear_right'' then Some (sort re)
     else if k = ''ear_left'' then Some (sort le)
     else r k)"
  by (simp add: ears_neck_section_def)

lemma temple_fallback_section_keys_ok:
  "temple_fallback_section x y scalp r = Inr r' \<Longrightarrow> keys_ok r \<Longrightarrow> keys_ok r'"
  by (auto simp: temple_fallback_section_def temple_fallback_zones_def Let_def keys_ok_upd
      zone_names split: if_splits)

lemma temple_fallback_section_agrees:
  "k \<notin> {''temple_left'', ''temple_right''} \<Longrightarrow>
    temple_fallback_section x y scalp r = Inr r' \<Longrightarrow> r' k = r k"
  by (auto simp: temple_fallback_section_def temple_fallback_zones_def Let_def
      split: if_splits)

lemma full_face_section_keys_ok:
  "keys_ok r \<Longrightarrow> keys_ok (full_face_section f fh n l le re r)"
  by (simp add: full_face_section_def keys_ok_upd zone_names)

lemma full_face_section_agrees:
  "k \<noteq> ''full_face'' \<Longrightarrow> full_face_section f fh n l le re r k = r k"
  by (simp add: full_face_section_def)

lemma full_face_section_covers:
  assumes "keys_ok r"
  shows "face_covered (full_face_section f fh n l le re r)"
  unfolding face_covered_def
proof (intro allI impI)
  fix k z
  let ?zm = "full_face_section f fh n l le re r"
  assume k: "?zm k = Some z" "k \<notin> {''neck'', ''ear_left'', ''ear_right''}"
  obtain ff where ff: "?zm ''full_face'' = Some ff"
    "set ff = (\<Union>name \<in> {name \<in> set ALL_CLINICAL_ZONES. name \<notin> set exclude_from_full}.
                 set (the (r name)))
              \<union> set (if f \<noteq> [] then f else []) \<union> set (if fh \<noteq> [] then fh else [])
              \<union> set (if n \<noteq> [] then n else []) \<union> set (if l \<noteq> [] then l else [])
              \<union> set (if le \<noteq> [] then le else []) \<union> set (if re \<noteq> [] then re else [])"
    by (simp add: full_face_section_def Un_assoc del: set_filter)
       (auto simp: )
  show "\<exists>ff. ?zm ''full_face'' = Some ff \<and> set z \<subseteq> set ff"
  proof (cases "k = ''full_face''")
    case True
    with k(1) ff(1) have "z = ff" by simp
    with ff(1) show ?thesis by blast
  next
    case False
    with k have rk: "r k = Some z" by (simp add: full_face_section_agrees)
    with assms have "k \<in> set ALL_CLINICAL_ZONES" by (auto simp: keys_ok_def)
    with k(2) False have "k \<in> {name \<in> set ALL_CLINICAL_ZONES. name \<notin> set exclude_from_full}"
      by (simp add: exclude_from_full_def)
    with rk have "set z \<subseteq> set ff" unfolding ff(2) by force
    with ff(1) show ?thesis by blast
  qed
qed

section \<open>Properties of the subdivider as a whole\<close>

lemma compute_vertex_stats_Inr:
  "v \<noteq> [] \<Longrightarrow> \<exists>stats. compute_vertex_stats v = Inr stats \<and> st_x stats = map fst v
      \<and> st_y stats = map (\<lambda>p. fst (snd p)) v"
  by (simp add: compute_vertex_stats_def Let_def)

lemma compute_vertex_stats_Inl: "compute_vertex_stats [] = Inl ValueError"
  by (simp add: compute_vertex_stats_def)

lemma for_each_eye_entries:
  "for_each f (eye_entries le re) r = Inr r' \<longleftrightarrow>
    (\<exists>rm. f (''left'', le, ''eye_left_upper'', ''eye_left_lower'',
              ''eye_left_corner_inner'', ''eye_left_corner_outer'',
              ''under_eye_left'', ''tear_trough_left'') r = Inr rm
        \<and> f (''right'', re, ''eye_right_upper'', ''eye_right_lower'',
              ''eye_right_corner_inner'', ''eye_right_corner_outer'',
              ''under_eye_right'', ''tear_trough_right'') rm = Inr r')"
  by (auto simp: eye_entries_def bind_err_def split: sum.splits)

lemma subdivide_InrE:
  fixes v :: "vertex list" and masks :: "(string \<times> mask_val) list"
  defines "x \<equiv> map fst v" and "y \<equiv> map (\<lambda>p. fst (snd p)) v"
    and "idx \<equiv> region_idx v masks"
  defines "mid \<equiv> (if idx ''nose'' \<noteq> [] then median (map (at_idx x) (idx ''nose'')) else 0)"
  assumes run: "subdivide_flame_masks_to_clinical_zones v masks = Inr zm"
  obtains r1 r2 r3 r4 where
    "v \<noteq> []"
    "in_bounds (length v) (idx ''nose'')" "in_bounds (length v) (idx ''lips'')"
    "forehead_section x y mid (idx ''forehead'') init_regions = Inr r1"
    "for_each (eye_side_step x y (idx ''left_eyeball'') (idx ''right_eyeball''))
       (eye_entries (idx ''left_eye_region'') (idx ''right_eye_region'')) r1 = Inr r2"
    "face_remainder_section x y mid (idx ''nose'') (idx ''lips'')
       (face_remainder_of (idx ''face'') (specific_regions (build_fm (length v) masks)))
       (lips_section x y (idx ''lips'')
          (nose_section x y mid (median_y y (idx ''nose'')) (idx ''nose'') r2)) = Inr r3"
    "temple_fallback_section x y (idx ''scalp'')
       (ears_neck_section (idx ''left_ear'') (idx ''right_ear'') (idx ''neck'') r3) = Inr r4"
    "zm = full_face_section (idx ''face'') (idx ''forehead'') (idx ''nose'') (idx ''lips'')
            (idx ''left_eye_region'') (idx ''right_eye_region'') r4"
proof -
  from run have ne: "v \<noteq> []"
    by (auto simp: subdivide_flame_masks_to_clinical_zones_def compute_vertex_stats_Inl
        bind_err_def)
  from compute_vertex_stats_Inr [OF ne] obtain stats where
    st: "compute_vertex_stats v = Inr stats" "st_x stats = x" "st_y stats = y"
    unfolding x_def y_def by blast
  from run st that ne show thesis
    unfolding subdivide_flame_masks_to_clinical_zones_def idx_def region_idx_def mid_def
    by (simp add: bind_err_def Let_def split: if_splits sum.splits)
qed


lemma eye_side_step_keys_ok:
  assumes "eye_side_step x y lb rb (side, eye_idx, n1, n2, n3, n4, n5, n6) r = Inr r'"
    and "keys_ok r"
    and "n1 \<in> set ALL_CLINICAL_ZONES" "n2 \<in> set ALL_CLINICAL_ZONES"
    and "n3 \<in> set ALL_CLINICAL_ZONES" "n4 \<in> set ALL_CLINICAL_ZONES"
    and "n5 \<in> set ALL_CLINICAL_ZONES" "n6 \<in> set ALL_CLINICAL_ZONES"
  shows "keys_ok r'"
  using assms(1,2) eye_side_zones_keys_ok [OF assms(2-8)]
  by (auto simp: eye_side_step_def Let_def split: if_splits)


lemma subdivide_final:
  assumes "subdivide_flame_masks_to_clinical_zones v masks = Inr zm"
  obtains r3 r4 where "keys_ok r4"
    "temple_fallback_section (map fst v) (map (\<lambda>p. fst (snd p)) v) (region_idx v masks ''scalp'')
          (ears_neck_section (region_idx v masks ''left_ear'') (region_idx v masks ''right_ear'')
             (region_idx v masks ''neck'') r3) = Inr r4"
    "zm = full_face_section (region_idx v masks ''face'') (region_idx v masks ''forehead'')
          (region_idx v masks ''nose'') (region_idx v masks ''lips'')
          (region_idx v masks ''left_eye_region'') (region_idx v masks ''right_eye_region'') r4"
proof -
  define x where "x = map fst v"
  define y where "y = map (\<lambda>p. fst (snd p)) v"
  from assms obtain r1 r2 r3 r4 and mid fr where
    s1: "forehead_section x y mid (region_idx v masks ''forehead'') init_regions = Inr r1" and
    s2: "for_each (eye_side_step x y (region_idx v masks ''left_eyeball'')
            (region_idx v masks ''right_eyeball''))
          (eye_entries (region_idx v masks ''left_eye_region'')
            (region_idx v masks ''right_eye_region'')) r1 = Inr r2" and
    s3: "face_remainder_section x y mid (region_idx v masks ''nose'') (region_idx v masks ''lips'')
          fr (lips_section x y (region_idx v masks ''lips'')
               (nose_section x y mid (median_y y (region_idx v masks ''nose''))
                  (region_idx v masks ''nose'') r2)) = Inr r3" and
    s4: "temple_fallback_section x y (region_idx v masks ''scalp'')
          (ears_neck_section (region_idx v masks ''left_ear'') (region_idx v masks ''right_ear'')
             (region_idx v masks ''neck'') r3) = Inr r4" and
    zm: "zm = full_face_section (region_idx v masks ''face'') (region_idx v masks ''forehead'')
          (region_idx v masks ''nose'') (region_idx v masks ''lips'')
          (region_idx v masks ''left_eye_region'') (region_idx v masks ''right_eye_region'') r4"
    unfolding x_def y_def by (rule subdivide_InrE) blast
  from s1 have k1: "keys_ok r1" by (rule forehead_section_keys_ok) (rule keys_ok_init)
  from s2 obtain rm where
    l: "eye_side_step x y (region_idx v masks ''left_eyeball'') (region_idx v masks ''right_eyeball'')
          (''left'', region_idx v masks ''left_eye_region'', ''eye_left_upper'', ''eye_left_lower'',
           ''eye_left_corner_inner'', ''eye_left_corner_outer'',
           ''under_eye_left'', ''tear_trough_left'') r1 = Inr rm" and
    r: "eye_side_step x y (region_idx v masks ''left_eyeball'') (region_idx v masks ''right_eyeball'')
          (''right'', region_idx v masks ''right_eye_region'', ''eye_right_upper'', ''eye_right_lower'',
           ''eye_right_corner_inner'', ''eye_right_corner_outer'',
           ''under_eye_right'', ''tear_trough_right'') rm = Inr r2"
    unfolding for_each_eye_entries by blast
  from l k1 have "keys_ok rm" by (rule eye_side_step_keys_ok) (rule zone_names)+
  with r have "keys_ok r2" by (rule eye_side_step_keys_ok) (rule zone_names)+
  then have "keys_ok (lips_section x y (region_idx v masks ''lips'')
               (nose_section x y mid (median_y y (region_idx v masks ''nose''))
                  (region_idx v masks ''nose'') r2))"
    by (intro lips_section_keys_ok nose_section_keys_ok)
  with s3 have "keys_ok r3" by (rule face_remainder_section_keys_ok)
  then have "keys_ok (ears_neck_section (region_idx v masks ''left_ear'')
      (region_idx v masks ''right_ear'') (region_idx v masks ''neck'') r3)"
    by (rule ears_neck_section_keys_ok)
  with s4 have "keys_ok r4" by (rule temple_fallback_section_keys_ok)
  with s4 zm that show thesis unfolding x_def y_def by blast
qed

lemma subdivide_keys_ok:
  assumes "subdivide_flame_masks_to_clinical_zones v masks = Inr zm"
  shows "keys_ok zm"
proof -
  from assms obtain r3 r4 where "keys_ok r4"
    "zm = full_face_section (region_idx v masks ''face'') (region_idx v masks ''forehead'')
          (region_idx v masks ''nose'') (region_idx v masks ''lips'')
          (region_idx v masks ''left_eye_region'') (region_idx v masks ''right_eye_region'') r4"
    by (rule subdivide_final)
  then show ?thesis by (simp add: full_face_section_keys_ok)
qed

lemma subdivide_face_covered:
  assumes "subdivide_flame_masks_to_clinical_zones v masks = Inr zm"
  shows "face_covered zm"
proof -
  from assms obtain r3 r4 where "keys_ok r4"
    "zm = full_face_section (region_idx v masks ''face'') (region_idx v masks ''forehead'')
          (region_idx v masks ''nose'') (region_idx v masks ''lips'')
          (region_idx v masks ''left_eye_region'') (region_idx v masks ''right_eye_region'') r4"
    by (rule subdivide_final)
  then show ?thesis by (simp add: full_face_section_covers)
qed

lemma position_only_keys_ok:
  "position_only_regions v = Inr zm \<Longrightarrow> keys_ok zm"
  by (auto simp: position_only_regions_def fold_classify_keys_ok keys_ok_init split: if_splits)

lemma position_only_face_covered:
  "position_only_regions v = Inr zm \<Longrightarrow> face_covered zm"
  by (auto simp: position_only_regions_def fold_classify_face_covered keys_ok_init
      face_covered_init split: if_splits)

lemma ALL_CLINICAL_ZONES_61: "length ALL_CLINICAL_ZONES = 61 \<and> distinct ALL_CLINICAL_ZONES"
  by (simp add: ALL_CLINICAL_ZONES_def)

text \<open>The converted masks depend on the dictionary, not on its insertion order.\<close>

lemma build_fm_fold:
  "distinct (map fst ms) \<Longrightarrow>
    fold (\<lambda>(key, val) fm. fm(key \<mapsto> mask_to_indices n val)) ms fm0 key =
      (case map_of ms key of None \<Rightarrow> fm0 key | Some val \<Rightarrow> Some (mask_to_indices n val))"
proof (induction ms arbitrary: fm0)
  case Nil
  then show ?case by simp
next
  case (Cons a ms)
  obtain k val where a: "a = (k, val)" by (cases a)
  from Cons.prems a have "map_of ms k = None" by (simp add: map_of_eq_None_iff)
  with Cons a show ?case by (auto split: option.splits)
qed

lemma build_fm_map_of:
  "distinct (map fst ms) \<Longrightarrow>
    build_fm n ms = (\<lambda>key. map_option (mask_to_indices n) (map_of ms key))"
  by (rule ext) (simp add: build_fm_def build_fm_fold split: option.splits)


text \<open>The subdivider returns when the indices it uses are in bounds.\<close>

lemma in_bounds_subset: "set a \<subseteq> set b \<Longrightarrow> in_bounds n b \<Longrightarrow> in_bounds n a"
  by (auto simp: in_bounds_def list_all_iff)

lemma in_bounds_face_remainder:
  "in_bounds n face \<Longrightarrow> in_bounds n (face_remainder_of face specific)"
  by (rule in_bounds_subset) (auto simp: face_remainder_of_def)

lemma in_bounds_Nil: "in_bounds n []"
  by (simp add: in_bounds_def)

lemma forehead_section_total:
  "in_bounds (length y) idx \<Longrightarrow> \<exists>r'. forehead_section x y m idx r = Inr r'"
  by (simp add: forehead_section_def)

lemma eye_side_step_total:
  "in_bounds (length y) eye_idx \<Longrightarrow>
    \<exists>r'. eye_side_step x y lb rb (side, eye_idx, n1, n2, n3, n4, n5, n6) r = Inr r'"
  by (simp add: eye_side_step_def Let_def)

lemma face_remainder_section_total:
  "in_bounds (length y) fr \<Longrightarrow> \<exists>r'. face_remainder_section x y m nose lips fr r = Inr r'"
  by (simp add: face_remainder_section_def)

lemma temple_fallback_section_total:
  "in_bounds (length y) scalp \<Longrightarrow> \<exists>r'. temple_fallback_section x y scalp r = Inr r'"
  by (simp add: temple_fallback_section_def)

lemma subdivide_total:
  fixes v :: "vertex list" and masks :: "(string \<times> mask_val) list"
  defines "x \<equiv> map fst v" and "y \<equiv> map (\<lambda>p. fst (snd p)) v"
    and "idx \<equiv> region_idx v masks"
  defines "mid \<equiv> (if idx ''nose'' \<noteq> [] then median (map (at_idx x) (idx ''nose'')) else 0)"
  assumes ne: "v \<noteq> []"
    and ok: "\<forall>key \<in> set indexed_keys. in_bounds (length v) (idx key)"
  shows "\<exists>zm. subdivide_flame_masks_to_clinical_zones v masks = Inr zm"
proof -
  from compute_vertex_stats_Inr [OF ne] obtain stats where
    st: "compute_vertex_stats v = Inr stats" "st_x stats = x" "st_y stats = y"
    unfolding x_def y_def by blast
  have ly: "length y = length v" by (simp add: y_def)
  from ok have b: "in_bounds (length v) (idx ''nose'')"
    "in_bounds (length v) (idx ''lips'')"
    "in_bounds (length y) (idx ''forehead'')"
    "in_bounds (length y) (idx ''left_eye_region'')"
    "in_bounds (length y) (idx ''right_eye_region'')"
    "in_bounds (length y) (idx ''face'')"
    "in_bounds (length y) (idx ''scalp'')"
    by (simp_all add: indexed_keys_def ly)
  let ?fr = "face_remainder_of (idx ''face'') (specific_regions (build_fm (length v) masks))"
  have fr: "in_bounds (length y) ?fr" by (rule in_bounds_face_remainder [OF b(6)])
  from forehead_section_total [OF b(3)] obtain r1 where
    s1: "forehead_section x y mid (idx ''forehead'') init_regions = Inr r1" by blast
  let ?step = "eye_side_step x y (idx ''left_eyeball'') (idx ''right_eyeball'')"
  from eye_side_step_total [OF b(4)] obtain rm where
    l: "?step (''left'', idx ''left_eye_region'', ''eye_left_upper'', ''eye_left_lower'',
              ''eye_left_corner_inner'', ''eye_left_corner_outer'',
              ''under_eye_left'', ''tear_trough_left'') r1 = Inr rm" by blast
  from eye_side_step_total [OF b(5)] obtain r2 where
    r: "?step (''right'', idx ''right_eye_region'', ''eye_right_upper'', ''eye_right_lower'',
              ''eye_right_corner_inner'', ''eye_right_corner_outer'',
              ''under_eye_right'', ''tear_trough_right'') rm = Inr r2" by blast
  from l r have s2: "for_each ?step
       (eye_entries (idx ''left_eye_region'') (idx ''right_eye_region'')) r1 = Inr r2"
    unfolding for_each_eye_entries by blast
  from face_remainder_section_total [OF fr] obtain r3 where
    s3: "face_remainder_section x y mid (idx ''nose'') (idx ''lips'') ?fr
       (lips_section x y (idx ''lips'')
          (nose_section x y mid (median_y y (idx ''nose'')) (idx ''nose'') r2)) = Inr r3"
    by blast
  from temple_fallback_section_total [OF b(7)] obtain r4 where
    s4: "temple_fallback_section x y (idx ''scalp'')
       (ears_neck_section (idx ''left_ear'') (idx ''right_ear'') (idx ''neck'') r3) = Inr r4"
    by blast
  from st b(1,2) s1 s2 s3 s4 show ?thesis
    unfolding subdivide_flame_masks_to_clinical_zones_def idx_def region_idx_def mid_def
    by (cases "fm_get (build_fm (length v) masks) ''nose'' = []")
       (simp_all add: bind_err_def Let_def)
qed

lemma full_face_section_empty:
  assumes "\<forall>k \<in> set ALL_CLINICAL_ZONES. r k = Some []"
  shows "full_face_section [] [] [] [] [] [] r = r(''full_face'' \<mapsto> [])"
proof -
  have c: "concat (map (\<lambda>name. the (r name))
          (filter (\<lambda>name. name \<notin> set exclude_from_full) ALL_CLINICAL_ZONES)) = []"
    using assms by (simp add: concat_eq_Nil_conv)
  show ?thesis unfolding full_face_section_def Let_def c by simp
qed

lemma init_regions_upd_triv:
  "k \<in> set ALL_CLINICAL_ZONES \<Longrightarrow> init_regions(k \<mapsto> []) = init_regions"
  by (rule map_upd_triv) (simp add: init_regions_apply)

lemma subdivide_all_empty:
  assumes ne: "v \<noteq> []"
    and empty: "\<forall>key \<in> set recognized_keys. region_idx v masks key = []"
  shows "subdivide_flame_masks_to_clinical_zones v masks = Inr init_regions"
proof -
  from compute_vertex_stats_Inr [OF ne] obtain stats where
    st: "compute_vertex_stats v = Inr stats" by blast
  from empty have e: "fm_get (build_fm (length v) masks) ''nose'' = []"
    "fm_get (build_fm (length v) masks) ''lips'' = []"
    "fm_get (build_fm (length v) masks) ''forehead'' = []"
    "fm_get (build_fm (length v) masks) ''left_eye_region'' = []"
    "fm_get (build_fm (length v) masks) ''right_eye_region'' = []"
    "fm_get (build_fm (length v) masks) ''face'' = []"
    "fm_get (build_fm (length v) masks) ''neck'' = []"
    "fm_get (build_fm (length v) masks) ''left_ear'' = []"
    "fm_get (build_fm (length v) masks) ''right_ear'' = []"
    "fm_get (build_fm (length v) masks) ''scalp'' = []"
    by (simp_all add: recognized_keys_def region_idx_def)
  have ff: "full_face_section [] [] [] [] [] [] init_regions = init_regions"
    by (simp add: full_face_section_empty init_regions_apply init_regions_upd_triv zone_names)
  show ?thesis
    unfolding subdivide_flame_masks_to_clinical_zones_def
    by (simp add: st e bind_err_def Let_def in_bounds_Nil forehead_section_def eye_entries_def
        eye_side_step_def nose_section_def lips_section_def face_remainder_of_def
        face_remainder_section_def ears_neck_section_def temple_fallback_section_def
        init_regions_upd_triv zone_names ff)
qed

text \<open>The ears and the neck are passed through.\<close>

lemma subdivide_passthrough:
  assumes "subdivide_flame_masks_to_clinical_zones v masks = Inr zm"
  shows "zm ''neck'' = Some (sort (region_idx v masks ''neck''))
       \<and> zm ''ear_left'' = Some (sort (region_idx v masks ''left_ear''))
       \<and> zm ''ear_right'' = Some (sort (region_idx v masks ''right_ear''))"
proof -
  from assms obtain r3 r4 where
    s4: "temple_fallback_section (map fst v) (map (\<lambda>p. fst (snd p)) v) (region_idx v masks ''scalp'')
          (ears_neck_section (region_idx v masks ''left_ear'') (region_idx v masks ''right_ear'')
             (region_idx v masks ''neck'') r3) = Inr r4" and
    zm: "zm = full_face_section (region_idx v masks ''face'') (region_idx v masks ''forehead'')
          (region_idx v masks ''nose'') (region_idx v masks ''lips'')
          (region_idx v masks ''left_eye_region'') (region_idx v masks ''right_eye_region'') r4"
    by (rule subdivide_final)
  have "zm k = ears_neck_section (region_idx v masks ''left_ear'') (region_idx v masks ''right_ear'')
             (region_idx v masks ''neck'') r3 k"
    if "k \<in> {''neck'', ''ear_left'', ''ear_right''}" for k
  proof -
    from that have "k \<noteq> ''full_face''" "k \<notin> {''temple_left'', ''temple_right''}" by auto
    then show ?thesis
      unfolding zm using temple_fallback_section_agrees [OF _ s4, of k]
      by (simp add: full_face_section_agrees)
  qed
  then show ?thesis by (simp add: ears_neck_section_apply)
qed

lemma region_idx_index_array:
  assumes "distinct (map fst masks)" and "(key, IntArr arr) \<in> set masks"
    and "\<not> (length arr = length v \<and> arr_max arr \<le> 1)"
  shows "region_idx v masks key = arr"
proof -
  from assms(1,2) have "map_of masks key = Some (IntArr arr)" by simp
  with assms(1,3) show ?thesis
    by (auto simp: region_idx_def fm_get_def build_fm_map_of mask_to_indices_def)
qed










text \<open>The definitions a concrete run unfolds.\<close>

lemmas section_defs =
  forehead_section_def forehead_zones_def forehead_thirds_step_def
  eye_side_step_def eye_side_zones_def eye_entries_def eye_skin_def
  nose_section_def lips_section_def face_remainder_section_def face_remainder_zones_def
  ears_neck_section_def temple_fallback_section_def temple_fallback_zones_def
  full_face_section_def exclude_from_full_def specific_keys_def specific_regions_def
  face_remainder_of_def

lemmas numpy_defs =
  arr_min_def arr_max_def at_idx_def in_bounds_def where_true_def median_def percentile_def
  split_lr_def split_upper_lower_def median_y_def median_x_def percentile_y_def
  percentile_x_def mask_to_indices_def build_fm_def fm_get_def bind_err_def
  compute_vertex_stats_def

lemmas subdivide_eval =
  subdivide_flame_masks_to_clinical_zones_def section_defs numpy_defs Let_def append_zone_def
  init_regions_apply ALL_CLINICAL_ZONES_def

lemmas position_only_eval =
  position_only_regions_def classify_vertex_def pos_yn_def pos_xn_def pos_is_front_def
  arr_min_def arr_max_def fdiv_def flt_def fgt_def fabs_def fsub_def Let_def zone_rules_def
  rule_defs append_zone_def init_regions_apply ALL_CLINICAL_ZONES_def upt_rec

text \<open>Two concrete runs.\<close>

lemma forehead_run:
  "\<exists>zm. subdivide_flame_masks_to_clinical_zones [(0, 0, 0), (0, 0, 0), (0, 0, 0)]
        [(''forehead'', IntArr [2, 0])] = Inr zm
     \<and> zm ''forehead'' = Some [0, 2] \<and> zm ''forehead_center'' = Some [2, 0]"
  by (simp add: subdivide_eval)

lemma two_vertex_classify:
  "\<exists>zm. position_only_regions [(0, 0, 0), (0, 1, 1)] = Inr zm \<and> zm ''forehead'' = Some [1]"
  by (simp add: position_only_eval)

lemma neck_index_run:
  "\<exists>zm. subdivide_flame_masks_to_clinical_zones [(0, 0, 0), (0, 0, 0), (0, 0, 0)]
           [(''neck'', IntArr [2, 0])] = Inr zm"
  by (simp add: subdivide_eval)





section \<open>Claims\<close>

text \<open>
  C1. Whenever the mask-guided subdivider or the position-only classifier returns a zone map,
  the key set of that map is exactly the set of the fixed zone names, of which there are 61,
  all different.
\<close>

theorem zone_map_keys:
  "(subdivide_flame_masks_to_clinical_zones v flame_masks = Inr zm
      \<longrightarrow> dom zm = set ALL_CLINICAL_ZONES)
   \<and> (position_only_regions v' = Inr zm' \<longrightarrow> dom zm' = set ALL_CLINICAL_ZONES)
   \<and> length ALL_CLINICAL_ZONES = 61 \<and> distinct ALL_CLINICAL_ZONES"
  using subdivide_keys_ok [of v flame_masks zm] position_only_keys_ok [of v' zm']
    ALL_CLINICAL_ZONES_61
  by (simp add: keys_ok_def)

theorem zone_map_keys_witness:
  "\<exists>zm zm'.
     subdivide_flame_masks_to_clinical_zones [(0, 0, 0), (0, 0, 0), (0, 0, 0)]
        [(''forehead'', IntArr [2, 0])] = Inr zm
     \<and> dom zm = set ALL_CLINICAL_ZONES
     \<and> position_only_regions [(0, 0, 0), (0, 1, 1)] = Inr zm'
     \<and> dom zm' = set ALL_CLINICAL_ZONES"
proof -
  from forehead_run obtain zm where run:
    "subdivide_flame_masks_to_clinical_zones [(0, 0, 0), (0, 0, 0), (0, 0, 0)]
        [(''forehead'', IntArr [2, 0])] = Inr zm"
    by (elim exE conjE)
  from two_vertex_classify obtain zm' where
    run': "position_only_regions [(0, 0, 0), (0, 1, 1)] = Inr zm'"
    by (elim exE conjE)
  note t = zone_map_keys [where v = "[(0, 0, 0), (0, 0, 0), (0, 0, 0)]"
      and flame_masks = "[(''forehead'', IntArr [2, 0])]" and zm = zm
      and v' = "[(0, 0, 0), (0, 1, 1)]" and zm' = zm']
  have "dom zm = set ALL_CLINICAL_ZONES"
    by (rule t [THEN conjunct1, THEN mp, OF run])
  moreover have "dom zm' = set ALL_CLINICAL_ZONES"
    by (rule t [THEN conjunct2, THEN conjunct1, THEN mp, OF run'])
  ultimately show ?thesis using run run' by (intro exI conjI)
qed

text \<open>
  C3. In the zone map returned by either component, the index set of every zone other than
  \<open>neck\<close>, \<open>ear_left\<close> and \<open>ear_right\<close> is contained in the index set of \<open>full_face\<close>.
\<close>

theorem full_face_superset:
  "(subdivide_flame_masks_to_clinical_zones v flame_masks = Inr zm \<longrightarrow>
      (\<forall>k l. zm k = Some l \<longrightarrow> k \<notin> {''neck'', ''ear_left'', ''ear_right''} \<longrightarrow>
         (\<exists>ff. zm ''full_face'' = Some ff \<and> set l \<subseteq> set ff)))
   \<and> (position_only_regions v' = Inr zm' \<longrightarrow>
      (\<forall>k l. zm' k = Some l \<longrightarrow> k \<notin> {''neck'', ''ear_left'', ''ear_right''} \<longrightarrow>
         (\<exists>ff. zm' ''full_face'' = Some ff \<and> set l \<subseteq> set ff)))"
  using subdivide_face_covered [of v flame_masks zm] position_only_face_covered [of v' zm']
  unfolding face_covered_def by blast

theorem full_face_superset_witness:
  "\<exists>zm zm' ff ff'.
     subdivide_flame_masks_to_clinical_zones [(0, 0, 0), (0, 0, 0), (0, 0, 0)]
        [(''forehead'', IntArr [2, 0])] = Inr zm
     \<and> zm ''forehead_center'' = Some [2, 0]
     \<and> zm ''full_face'' = Some ff \<and> set [2, 0] \<subseteq> set ff
     \<and> position_only_regions [(0, 0, 0), (0, 1, 1)] = Inr zm'
     \<and> zm' ''forehead'' = Some [1]
     \<and> zm' ''full_face'' = Some ff' \<and> set [1] \<subseteq> set ff'"
proof -
  from forehead_run obtain zm where run:
    "subdivide_flame_masks_to_clinical_zones [(0, 0, 0), (0, 0, 0), (0, 0, 0)]
        [(''forehead'', IntArr [2, 0])] = Inr zm" and fc: "zm ''forehead_center'' = Some [2, 0]"
    by (elim exE conjE)
  from two_vertex_classify obtain zm' where
    run': "position_only_regions [(0, 0, 0), (0, 1, 1)] = Inr zm'"
    and fh: "zm' ''forehead'' = Some [1]"
    by (elim exE conjE)
  note t = full_face_superset [where v = "[(0, 0, 0), (0, 0, 0), (0, 0, 0)]"
      and flame_masks = "[(''forehead'', IntArr [2, 0])]" and zm = zm
      and v' = "[(0, 0, 0), (0, 1, 1)]" and zm' = zm']
  have n1: "''forehead_center'' \<notin> {''neck'', ''ear_left'', ''ear_right''}" by simp
  have n2: "''forehead'' \<notin> {''neck'', ''ear_left'', ''ear_right''}" by simp
  from t [THEN conjunct1, THEN mp, OF run, rule_format, OF fc n1] obtain ff where
    ff: "zm ''full_face'' = Some ff" "set [2, 0] \<subseteq> set ff"
    by (elim exE conjE)
  from t [THEN conjunct2, THEN mp, OF run', rule_format, OF fh n2] obtain ff' where
    ff': "zm' ''full_face'' = Some ff'" "set [1] \<subseteq> set ff'"
    by (elim exE conjE)
  from run fc ff run' fh ff' show ?thesis by (intro exI conjI)
qed

text \<open>
  C9. In the position-only classifier, whatever the floating-point arithmetic: a vertex that
  fails the front-face gate, that is, whose z is not above the computed midpoint
  \<open>(z_min + z_max) / 2\<close>, appears in no zone other than \<open>neck\<close>; and a vertex is in \<open>neck\<close>
  exactly when its normalised y, \<open>(y - y_min) / (y_max - y_min)\<close>, is below 0.10, whether it
  passes the gate or not: the neck test comes first.
\<close>

theorem position_only_gate_and_neck:
  fixes ops :: "'f float_ops" and v :: "('f \<times> 'f \<times> 'f) list"
  defines "y \<equiv> map (\<lambda>p. fst (snd p)) v" and "z \<equiv> map (\<lambda>p. snd (snd p)) v"
  assumes run: "fp_position_only_regions ops v = Inr zm" and vi: "vi < length v"
  shows "(\<not> f_lt ops (f_div ops (f_add ops (f_min ops z) (f_max ops z)) (f_lit ops 2)) (z ! vi)
            \<longrightarrow> (\<forall>k l. zm k = Some l \<and> k \<noteq> ''neck'' \<longrightarrow> int vi \<notin> set l))
       \<and> (\<exists>neck. zm ''neck'' = Some neck
             \<and> (int vi \<in> set neck \<longleftrightarrow>
                  f_lt ops
                    (f_div ops (f_sub ops (y ! vi) (f_min ops y))
                       (f_sub ops (f_max ops y) (f_min ops y)))
                    (f_lit ops 0.10)))"
proof -
  let ?front = "\<lambda>vi. f_lt ops (f_div ops (f_add ops (f_min ops z) (f_max ops z)) (f_lit ops 2))
                       (z ! vi)"
  let ?low = "\<lambda>vi. f_lt ops
                    (f_div ops (f_sub ops (y ! vi) (f_min ops y))
                       (f_sub ops (f_max ops y) (f_min ops y)))
                    (f_lit ops 0.10)"
  from run have zm: "zm = fold (fp_classify_vertex ops v) [0..<length v] init_regions"
    by (simp add: fp_position_only_regions_def split: if_splits)
  have ok: "keys_ok zm" unfolding zm by (rule fp_fold_classify_keys_ok [OF keys_ok_init])
  have behind: "int vi \<notin> set l" if nf: "\<not> ?front vi" and k: "zm k = Some l" "k \<noteq> ''neck''"
    for k l
  proof -
    from ok k(1) have "k \<in> set ALL_CLINICAL_ZONES" by (auto simp: keys_ok_def)
    then have "init_regions k = Some []" by (simp add: init_regions_apply)
    from fp_fold_classify_members [of init_regions k "[]" ops v "[0..<length v]"] this k zm
    have "set l \<subseteq> int ` {vi \<in> set [0..<length v]. ?front vi}"
      unfolding z_def by auto
    with nf show ?thesis by auto
  qed
  have "init_regions ''neck'' = Some []"
    by (simp add: init_regions_apply ALL_CLINICAL_ZONES_def)
  from fp_fold_classify_neck [of init_regions "[]" ops v "[0..<length v]"] this
  have neck: "zm ''neck'' = Some (map int (filter ?low [0..<length v]))"
    unfolding y_def by (simp add: zm)
  have "int vi \<in> set (map int (filter ?low [0..<length v])) \<longleftrightarrow> ?low vi"
    using vi by auto
  with neck behind show ?thesis by blast
qed

theorem position_only_gate_and_neck_witness:
  "fp_position_only_regions exact_ops
      [(Some 0, Some 0, Some 0), (Some 0, Some 1, Some 1), (Some 0, Some 1, Some 0)] =
    Inr (init_regions(''neck'' \<mapsto> [0], ''full_face'' \<mapsto> [1], ''forehead'' \<mapsto> [1],
           ''forehead_center'' \<mapsto> [1]))
   \<and> (2::nat) < length ([(Some 0, Some 0, Some 0), (Some 0, Some 1, Some 1),
                           (Some 0, Some 1, Some 0)]
                          :: (real option \<times> real option \<times> real option) list)
   \<and> \<not> f_lt exact_ops
         (f_div exact_ops
            (f_add exact_ops (f_min exact_ops [Some 0, Some 1, Some 0])
               (f_max exact_ops [Some 0, Some 1, Some 0]))
            (f_lit exact_ops 2))
         (Some 0)
   \<and> (2::int) \<notin> set [1]
   \<and> (2::int) \<notin> set [0]
   \<and> \<not> f_lt exact_ops
         (f_div exact_ops
            (f_sub exact_ops (Some 1) (f_min exact_ops [Some 0, Some 1, Some 1]))
            (f_sub exact_ops (f_max exact_ops [Some 0, Some 1, Some 1])
               (f_min exact_ops [Some 0, Some 1, Some 1])))
         (f_lit exact_ops 0.10)"
proof -
  let ?v = "[(Some 0, Some 0, Some 0), (Some 0, Some 1, Some 1), (Some 0, Some 1, Some 0)]
              :: (real option \<times> real option \<times> real option) list"
  let ?zm = "init_regions(''neck'' \<mapsto> [0], ''full_face'' \<mapsto> [1], ''forehead'' \<mapsto> [1],
               ''forehead_center'' \<mapsto> [1])"
  have run: "fp_position_only_regions exact_ops ?v = Inr ?zm"
    by (rule exact_three_vertex_run)
  have len: "(2::nat) < length ?v" by simp
  have nf: "\<not> f_lt exact_ops
         (f_div exact_ops
            (f_add exact_ops (f_min exact_ops [Some 0, Some 1, Some 0])
               (f_max exact_ops [Some 0, Some 1, Some 0]))
            (f_lit exact_ops 2))
         (Some 0)"
    by (simp add: exact_ops_def arr_min_def arr_max_def fdiv_def)
  note t = position_only_gate_and_neck [OF run len]
  have ff: "?zm ''full_face'' = Some [1] \<and> ''full_face'' \<noteq> ''neck''" by simp
  from t nf have "\<forall>k l. ?zm k = Some l \<and> k \<noteq> ''neck'' \<longrightarrow> int 2 \<notin> set l"
    by simp
  from this [rule_format, OF ff] have a: "(2::int) \<notin> set [1]" by simp
  from t have "\<exists>neck. ?zm ''neck'' = Some neck
       \<and> (int 2 \<in> set neck \<longleftrightarrow>
            f_lt exact_ops
              (f_div exact_ops
                 (f_sub exact_ops (Some 1) (f_min exact_ops [Some 0, Some 1, Some 1]))
                 (f_sub exact_ops (f_max exact_ops [Some 0, Some 1, Some 1])
                    (f_min exact_ops [Some 0, Some 1, Some 1])))
              (f_lit exact_ops 0.10))"
    by simp
  then have b: "(2::int) \<notin> set [0]"
    and c: "\<not> f_lt exact_ops
         (f_div exact_ops
            (f_sub exact_ops (Some 1) (f_min exact_ops [Some 0, Some 1, Some 1]))
            (f_sub exact_ops (f_max exact_ops [Some 0, Some 1, Some 1])
               (f_min exact_ops [Some 0, Some 1, Some 1])))
         (f_lit exact_ops 0.10)"
    by (simp_all add: exact_ops_def arr_min_def arr_max_def fdiv_def)
  from run len nf a b c show ?thesis by (intro conjI)
qed

text \<open>
  C6. The subdivider is total on degraded inputs: for a non-empty vertex array and a mask
  dictionary whose index arrays, where it uses them as an index, are within the bounds of the
  vertex array (an absent key, \<^verbatim>\<open>None\<close> and an empty array are), it returns a zone map; and
  when every region it reads is absent or empty, every zone of that map is empty.
\<close>

theorem subdivide_total_on_degraded_inputs:
  assumes "v \<noteq> []"
    and "\<forall>key \<in> set indexed_keys. in_bounds (length v) (region_idx v flame_masks key)"
  shows "(\<exists>zm. subdivide_flame_masks_to_clinical_zones v flame_masks = Inr zm)
       \<and> ((\<forall>key \<in> set recognized_keys. region_idx v flame_masks key = [])
            \<longrightarrow> subdivide_flame_masks_to_clinical_zones v flame_masks = Inr init_regions)"
  using subdivide_total [OF assms] subdivide_all_empty [OF assms(1)] by blast

theorem subdivide_total_on_degraded_inputs_witness:
  "[(0, 0, 0), (0, 0, 0), (0, 0, 0)] \<noteq> ([] :: vertex list)
   \<and> (\<exists>zm. subdivide_flame_masks_to_clinical_zones [(0, 0, 0), (0, 0, 0), (0, 0, 0)]
              [(''forehead'', IntArr [2, 0])] = Inr zm)
   \<and> subdivide_flame_masks_to_clinical_zones [(0, 0, 0)]
        [(''nose'', NoneVal), (''lips'', IntArr [])] = Inr init_regions"
proof -
  let ?v = "[(0, 0, 0), (0, 0, 0), (0, 0, 0)] :: vertex list"
  let ?m = "[(''forehead'', IntArr [2, 0])]"
  let ?w = "[(0, 0, 0)] :: vertex list"
  let ?n = "[(''nose'', NoneVal), (''lips'', IntArr [])]"
  have ne: "?v \<noteq> []" and ne0: "?w \<noteq> []" by simp_all
  have ok: "\<forall>key \<in> set indexed_keys. in_bounds (length ?v) (region_idx ?v ?m key)"
    by (simp add: indexed_keys_def region_idx_def build_fm_def fm_get_def mask_to_indices_def
        in_bounds_def arr_max_def)
  have ok0: "\<forall>key \<in> set indexed_keys. in_bounds (length ?w) (region_idx ?w ?n key)"
    by (simp add: indexed_keys_def region_idx_def build_fm_def fm_get_def mask_to_indices_def
        in_bounds_def)
  have em0: "\<forall>key \<in> set recognized_keys. region_idx ?w ?n key = []"
    by (simp add: recognized_keys_def region_idx_def build_fm_def fm_get_def mask_to_indices_def)
  have a: "\<exists>zm. subdivide_flame_masks_to_clinical_zones ?v ?m = Inr zm"
    by (rule subdivide_total_on_degraded_inputs [OF ne ok, THEN conjunct1])
  have b: "subdivide_flame_masks_to_clinical_zones ?w ?n = Inr init_regions"
    by (rule subdivide_total_on_degraded_inputs [OF ne0 ok0, THEN conjunct2, THEN mp, OF em0])
  from ne a b show ?thesis by (intro conjI)
qed



text \<open>
  C10, as amended. A region supplied as an explicit index list is taken as exactly that list,
  unless the list has as many entries as there are vertices and no entry above 1: such a list
  is read as a 0/1 membership mask. For a list that is taken as it is, the \<open>neck\<close>,
  \<open>ear_left\<close> and \<open>ear_right\<close> zones are the sorted supplied lists.
\<close>

theorem explicit_index_list_passthrough:
  assumes run: "subdivide_flame_masks_to_clinical_zones v flame_masks = Inr zm"
    and dist: "distinct (map fst flame_masks)"
    and mem: "(key, IntArr arr) \<in> set flame_masks"
    and not_mask: "\<not> (length arr = length v \<and> arr_max arr \<le> 1)"
  shows "region_idx v flame_masks key = arr
       \<and> (key = ''neck'' \<longrightarrow> zm ''neck'' = Some (sort arr))
       \<and> (key = ''left_ear'' \<longrightarrow> zm ''ear_left'' = Some (sort arr))
       \<and> (key = ''right_ear'' \<longrightarrow> zm ''ear_right'' = Some (sort arr))"
  using region_idx_index_array [OF dist mem not_mask] subdivide_passthrough [OF run]
  by auto

theorem explicit_index_list_passthrough_witness:
  "\<exists>zm. subdivide_flame_masks_to_clinical_zones [(0, 0, 0), (0, 0, 0), (0, 0, 0)]
           [(''neck'', IntArr [2, 0])] = Inr zm
     \<and> distinct (map fst [(''neck'', IntArr [2, 0])])
     \<and> (''neck'', IntArr [2, 0]) \<in> set [(''neck'', IntArr [2, 0])]
     \<and> \<not> (length [2, 0 :: int] = length [(0, 0, 0), (0, 0, 0), (0, 0, 0) :: vertex]
           \<and> arr_max [2, 0 :: int] \<le> 1)
     \<and> region_idx [(0, 0, 0), (0, 0, 0), (0, 0, 0)] [(''neck'', IntArr [2, 0])] ''neck'' = [2, 0]
     \<and> zm ''neck'' = Some [0, 2]"
proof -
  from neck_index_run obtain zm where run:
    "subdivide_flame_masks_to_clinical_zones [(0, 0, 0), (0, 0, 0), (0, 0, 0)]
           [(''neck'', IntArr [2, 0])] = Inr zm"
    by (elim exE)
  have dist: "distinct (map fst [(''neck'', IntArr [2, 0])])" by simp
  have mem: "(''neck'', IntArr [2, 0]) \<in> set [(''neck'', IntArr [2, 0])]" by simp
  have nm: "\<not> (length [2, 0 :: int] = length [(0, 0, 0), (0, 0, 0), (0, 0, 0) :: vertex]
           \<and> arr_max [2, 0 :: int] \<le> 1)" by simp
  note t = explicit_index_list_passthrough [OF run dist mem nm]
  from t have a: "region_idx [(0, 0, 0), (0, 0, 0), (0, 0, 0)] [(''neck'', IntArr [2, 0])] ''neck''
      = [2, 0]" by (rule conjunct1)
  from t have "zm ''neck'' = Some (sort [2, 0])" by simp
  then have b: "zm ''neck'' = Some [0, 2]" by simp
  from run dist mem nm a b show ?thesis by (intro exI conjI)
qed

text \<open>
  C10 as stated fails: with two vertices the index list \<open>[0, 1]\<close> under \<open>neck\<close> is read as a
  mask, and the \<open>neck\<close> zone is \<open>[1]\<close>.
\<close>

theorem explicit_index_list_counterexample:
  "subdivide_flame_masks_to_clinical_zones [(0, 0, 0), (0, 0, 0)] [(''neck'', IntArr [0, 1])] =
     Inr (init_regions(''ear_left'' \<mapsto> [], ''ear_right'' \<mapsto> [], ''neck'' \<mapsto> [1],
            ''full_face'' \<mapsto> []))
   \<and> region_idx [(0, 0, 0), (0, 0, 0)] [(''neck'', IntArr [0, 1])] ''neck'' = [1]
   \<and> sort [0, 1] \<noteq> [1 :: int]"
  by (simp add: subdivide_eval region_idx_def)

text \<open>
  C2. The thirds of the forehead are filled by appending in the order of the forehead index
  array: for the index array \<open>[2, 0]\<close> over three vertices at the origin, the subdivider
  returns \<open>forehead_center = [2, 0]\<close>, which is not ascending, next to \<open>forehead = [0, 2]\<close>.
\<close>

theorem forehead_thirds_unsorted:
  "zone_of (subdivide_flame_masks_to_clinical_zones [(0, 0, 0), (0, 0, 0), (0, 0, 0)]
      [(''forehead'', IntArr [2, 0])]) ''forehead_center'' = Some [2, 0]
   \<and> zone_of (subdivide_flame_masks_to_clinical_zones [(0, 0, 0), (0, 0, 0), (0, 0, 0)]
      [(''forehead'', IntArr [2, 0])]) ''forehead'' = Some [0, 2]
   \<and> \<not> sorted [2, 0 :: int]
   \<and> region_idx [(0, 0, 0), (0, 0, 0), (0, 0, 0)] [(''forehead'', IntArr [2, 0])] ''forehead''
       = [2, 0]"
proof -
  from forehead_run obtain zm where
    "subdivide_flame_masks_to_clinical_zones [(0, 0, 0), (0, 0, 0), (0, 0, 0)]
        [(''forehead'', IntArr [2, 0])] = Inr zm"
    "zm ''forehead'' = Some [0, 2]" "zm ''forehead_center'' = Some [2, 0]"
    by (elim exE conjE)
  moreover have "region_idx [(0, 0, 0), (0, 0, 0), (0, 0, 0)] [(''forehead'', IntArr [2, 0])]
      ''forehead'' = [2, 0]"
    by (simp add: region_idx_def build_fm_def fm_get_def mask_to_indices_def arr_max_def)
  ultimately show ?thesis by (simp add: zone_of_def)
qed






text \<open>
  C7. The statistics of the subdivider divide by 1 when a range is zero, so the normalised y
  of a single vertex is 0. The position-only classifier divides by the range itself: for a
  single vertex its normalised y is \<open>0 / 0\<close>, not a number, and the vertex enters no zone,
  not even \<open>neck\<close>.
\<close>

theorem single_vertex_division_by_zero:
  "map_sum id st_yn (compute_vertex_stats [(0, 0, 0)]) = Inr [0]
   \<and> pos_yn [(0, 0, 0)] 0 = None
   \<and> zone_of (position_only_regions [(0, 0, 0)]) ''neck'' = Some []
   \<and> zone_of (fp_position_only_regions exact_ops [(Some 0, Some 0, Some 0)]) ''neck'' = Some []"
  by (simp add: compute_vertex_stats_def pos_yn_def zone_of_def position_only_eval
      fp_position_only_regions_def fp_classify_vertex_def exact_ops_def lt_lit_def)

end
